theory Spec2Isabelle
  imports Complex_Main
begin

section \<open>Values of the Python run time\<close>

text \<open>
  The program is Python on top of pandas and numpy. Its values are modelled as follows.
  \<^item> Strings are lists of code points below 256 (\<open>string\<close>).
  \<^item> Finite numbers are rationals (\<open>rat\<close>): every finite float is a rational, and the
    rounding error of float arithmetic is not modelled.
  \<^item> A cell of a league table of the fast source is a finite number, a missing value
    (NaN or None) or a text.
  \<^item> A raised exception is the left summand of \<open>error + 'a\<close>. The three ValueErrors
    that the program raises itself are told apart by what their message says
    (\<open>LeagueNotFound\<close> with the valid aliases, \<open>TeamNotFound\<close> with the roster,
    \<open>NoDataFound\<close>); \<open>PyValueError\<close> is the one raised by \<open>int()\<close>.
  \<^item> A provider need not answer the same way each time it is asked the same thing:
    its answer is a function of what it is asked and of the number of calls the run
    has made to it before.
\<close>

datatype error =
    PyValueError
  | PyZeroDivisionError
  | PyTypeError
  | PyKeyError
  | ProviderFailure
  | RegexError
  | LeagueNotFound "string list"
  | TeamNotFound "string list"
  | NoDataFound

definition ebind :: "error + 'a \<Rightarrow> ('a \<Rightarrow> error + 'b) \<Rightarrow> error + 'b" where
  "ebind m f = (case m of Inl e \<Rightarrow> Inl e | Inr x \<Rightarrow> f x)"

subsection \<open>Strings: \<open>lower\<close>, \<open>title\<close>, \<open>in\<close>\<close>

definition is_upper :: "char \<Rightarrow> bool" where
  "is_upper c = (let n = (of_char c :: nat) in
     (65 \<le> n \<and> n \<le> 90) \<or> (192 \<le> n \<and> n \<le> 222 \<and> n \<noteq> 215))"

definition is_ascii_upper :: "char \<Rightarrow> bool" where
  "is_ascii_upper c = (let n = (of_char c :: nat) in 65 \<le> n \<and> n \<le> 90)"

definition is_ascii_lower :: "char \<Rightarrow> bool" where
  "is_ascii_lower c = (let n = (of_char c :: nat) in 97 \<le> n \<and> n \<le> 122)"

definition lower_char :: "char \<Rightarrow> char" where
  "lower_char c = (if is_upper c then char_of ((of_char c :: nat) + 32) else c)"

definition upper_char :: "char \<Rightarrow> char" where
  "upper_char c = (if is_ascii_lower c then char_of ((of_char c :: nat) - 32) else c)"

text \<open>\<open>s.lower()\<close>: exact on code points below 256.\<close>

definition lower :: "string \<Rightarrow> string" where
  "lower s = map lower_char s"

text \<open>
  \<open>s.title()\<close>, exact on ASCII strings: a letter that follows a letter is lowered, a
  letter that follows anything else is raised. (The only strings it is applied to
  have passed the league lookup, so they are ASCII.)
\<close>

fun title_from :: "bool \<Rightarrow> string \<Rightarrow> string" where
  "title_from prev [] = []"
| "title_from prev (c # cs) =
     (if is_ascii_lower c \<or> is_ascii_upper c
      then (if prev then lower_char c else upper_char c) # title_from True cs
      else c # title_from False cs)"

definition title :: "string \<Rightarrow> string" where
  "title s = title_from False s"

text \<open>\<open>a in b\<close> on strings: \<open>a\<close> occurs in \<open>b\<close> as a contiguous run.\<close>

fun starts_with :: "string \<Rightarrow> string \<Rightarrow> bool" where
  "starts_with [] b = True"
| "starts_with (x # a) [] = False"
| "starts_with (x # a) (y # b) = (x = y \<and> starts_with a b)"

fun str_in :: "string \<Rightarrow> string \<Rightarrow> bool" where
  "str_in a [] = (a = [])"
| "str_in a (y # b) = (starts_with a (y # b) \<or> str_in a b)"

subsection \<open>Numbers: \<open>int()\<close>, \<open>round()\<close>, true division\<close>

text \<open>\<open>int(x)\<close> on a finite number truncates towards zero.\<close>

definition py_trunc :: "rat \<Rightarrow> int" where
  "py_trunc q = (if 0 \<le> q then \<lfloor>q\<rfloor> else \<lceil>q\<rceil>)"

text \<open>\<open>round(x, n)\<close> and \<open>Series.round(n)\<close>: to \<open>n\<close> decimals, a tie going to the even neighbour.\<close>

definition round_half_even :: "rat \<Rightarrow> int" where
  "round_half_even q =
     (let f = \<lfloor>q\<rfloor>; r = q - of_int f
      in if r < 1 / 2 then f
         else if 1 / 2 < r then f + 1
         else if even f then f else f + 1)"

definition py_round :: "rat \<Rightarrow> nat \<Rightarrow> rat" where
  "py_round q n = of_int (round_half_even (q * 10 ^ n)) / 10 ^ n"

text \<open>
  \<open>a / b\<close> on two finite numbers, with Python's own semantics: a zero divisor raises.
  (numpy scalars would give \<open>inf\<close> instead; taking the stricter reading here makes
  "no ZeroDivisionError" a statement about the guards of the program.)
\<close>

definition py_truediv :: "rat \<Rightarrow> rat \<Rightarrow> error + rat" where
  "py_truediv a b = (if b = 0 then Inl PyZeroDivisionError else Inr (a / b))"

subsection \<open>Cells of the fast source\<close>

datatype cell = Num rat | NaN | Str string

text \<open>
  The two library parsers the program applies to a text cell are parameters:
  \<open>to_numeric_str\<close> is \<open>pd.to_numeric(s, errors='coerce')\<close> on a string (\<open>None\<close>: the
  text does not parse, the result is NaN), \<open>int_of_str\<close> is \<open>int(s)\<close> on a string
  (\<open>None\<close>: ValueError). \<open>read_league_table k league_code season\<close> is
  \<open>sd.FotMob(leagues=league_code, seasons=season).read_league_table()\<close>, made as the
  call number \<open>k\<close> (from 0) of the run to the fast provider; it may raise. (Texts that denote an infinity are outside the
  model: a parsed number is finite.)
\<close>

record table_row =
  row_team :: string
  row_MP :: cell
  row_W :: cell
  row_D :: cell
  row_L :: cell
  row_GF :: cell
  row_GA :: cell
  row_GD :: cell
  row_Pts :: cell

record env =
  read_league_table :: "nat \<Rightarrow> string \<Rightarrow> string \<Rightarrow> error + table_row list"
  to_numeric_str :: "string \<Rightarrow> rat option"
  int_of_str :: "string \<Rightarrow> int option"

text \<open>\<open>pd.to_numeric(c, errors='coerce')\<close>: a number or NaN (\<open>None\<close>).\<close>

fun to_numeric :: "env \<Rightarrow> cell \<Rightarrow> rat option" where
  "to_numeric e (Num q) = Some q"
| "to_numeric e NaN = None"
| "to_numeric e (Str s) = to_numeric_str e s"

fun notna :: "cell \<Rightarrow> bool" where
  "notna NaN = False"
| "notna (Num q) = True"
| "notna (Str s) = True"

text \<open>\<open>int(c)\<close> on a raw cell.\<close>

fun py_int :: "env \<Rightarrow> cell \<Rightarrow> error + int" where
  "py_int e (Num q) = Inr (py_trunc q)"
| "py_int e NaN = Inl PyValueError"
| "py_int e (Str s) = (case int_of_str e s of Some i \<Rightarrow> Inr i | None \<Rightarrow> Inl PyValueError)"

text \<open>\<open>int(c) if pd.notna(c) else 0\<close> on a raw cell, and on a coerced number.\<close>

definition int_or_zero :: "env \<Rightarrow> cell \<Rightarrow> error + int" where
  "int_or_zero e c = (if notna c then py_int e c else Inr 0)"

definition int_or_zero_num :: "rat option \<Rightarrow> int" where
  "int_or_zero_num v = (case v of Some q \<Rightarrow> py_trunc q | None \<Rightarrow> 0)"

text \<open>\<open>mp > 0\<close> on a coerced number: a comparison with NaN is false.\<close>

definition gt_zero :: "rat option \<Rightarrow> bool" where
  "gt_zero v = (case v of Some q \<Rightarrow> 0 < q | None \<Rightarrow> False)"

section \<open>The league catalogue and the seasons\<close>

definition league_mappings :: "(string \<times> string) list" where
  "league_mappings =
    [(''england'', ''ENG-Premier League''),
     (''premier league'', ''ENG-Premier League''),
     (''epl'', ''ENG-Premier League''),
     (''spain'', ''ESP-La Liga''),
     (''la liga'', ''ESP-La Liga''),
     (''germany'', ''GER-Bundesliga''),
     (''bundesliga'', ''GER-Bundesliga''),
     (''italy'', ''ITA-Serie A''),
     (''serie a'', ''ITA-Serie A''),
     (''france'', ''FRA-Ligue 1''),
     (''ligue 1'', ''FRA-Ligue 1'')]"

definition seasons :: "string list" where
  "seasons = [''2024/2025'', ''2023/2024'', ''2022/2023'', ''2021/2022'', ''2020/2021'']"

text \<open>\<open>self.league_mappings.get(league.lower())\<close>\<close>

definition league_code_of :: "string \<Rightarrow> string option" where
  "league_code_of league = map_of league_mappings (lower league)"

section \<open>Team resolution\<close>

text \<open>What the three data functions print, in order.\<close>

datatype log_msg =
    ErrorFetchingTeams string error
  | FoundTeam string string
  | FetchingStats string string
  | SeasonProgress string
  | TeamNotInSeason string string
  | ErrorFetchingSeason string error

text \<open>
  \<open>get_available_teams\<close>: an unknown league raises; a failure of the provider is caught,
  printed, and the roster is empty.
\<close>

definition get_available_teams ::
  "env \<Rightarrow> nat \<Rightarrow> string \<Rightarrow> string \<Rightarrow> log_msg list \<times> (error + string list)" where
  "get_available_teams e k league season =
     (case league_code_of league of
        None \<Rightarrow> ([], Inl (LeagueNotFound (map fst league_mappings)))
      | Some league_code \<Rightarrow>
          (case read_league_table e k league_code season of
             Inl err \<Rightarrow> ([ErrorFetchingTeams league err], Inr [])
           | Inr league_table \<Rightarrow> ([], Inr (map row_team league_table))))"

definition team_variations :: "(string \<times> string) list" where
  "team_variations =
    [(''man city'', ''Manchester City''),
     (''man united'', ''Manchester United''),
     (''man u'', ''Manchester United''),
     (''spurs'', ''Tottenham Hotspur''),
     (''tottenham'', ''Tottenham Hotspur''),
     (''real'', ''Real Madrid''),
     (''barca'', ''Barcelona''),
     (''bayern'', ''Bayern M'' @ [char_of (195 :: nat), char_of (188 :: nat)] @ ''nchen''),
     (''dortmund'', ''Borussia Dortmund''),
     (''psg'', ''Paris Saint-Germain''),
     (''juve'', ''Juventus''),
     (''inter'', ''Inter Milan''),
     (''milan'', ''AC Milan'')]"

text \<open>The first loop of \<open>find_team_match\<close>: the first team equal to the input, case folded.\<close>

fun exact_match :: "string \<Rightarrow> string list \<Rightarrow> string option" where
  "exact_match team_input_lower [] = None"
| "exact_match team_input_lower (team # teams) =
     (if lower team = team_input_lower then Some team
      else exact_match team_input_lower teams)"

text \<open>The second loop: the first team that contains the input or is contained in it.\<close>

fun partial_match :: "string \<Rightarrow> string list \<Rightarrow> string option" where
  "partial_match team_input_lower [] = None"
| "partial_match team_input_lower (team # teams) =
     (if str_in team_input_lower (lower team) \<or> str_in (lower team) team_input_lower
      then Some team
      else partial_match team_input_lower teams)"

text \<open>The table of nicknames: the mapped name counts only if the roster has it.\<close>

definition variation_match :: "string \<Rightarrow> string list \<Rightarrow> string option" where
  "variation_match team_input_lower available_teams =
     (case map_of team_variations team_input_lower of
        None \<Rightarrow> None
      | Some suggested_team \<Rightarrow>
          (if suggested_team \<in> set available_teams then Some suggested_team else None))"

text \<open>The body of \<open>find_team_match\<close> once the roster is there.\<close>

definition match_in_roster :: "string list \<Rightarrow> string \<Rightarrow> string option" where
  "match_in_roster available_teams team_input =
     (if available_teams = [] then None
      else
        let team_input_lower = lower team_input in
        (case exact_match team_input_lower available_teams of
           Some team \<Rightarrow> Some team
         | None \<Rightarrow>
             (case partial_match team_input_lower available_teams of
                Some team \<Rightarrow> Some team
              | None \<Rightarrow> variation_match team_input_lower available_teams)))"

definition find_team_match ::
  "env \<Rightarrow> nat \<Rightarrow> string \<Rightarrow> string \<Rightarrow> string \<Rightarrow>
     log_msg list \<times> (error + string option)" where
  "find_team_match e k league team_input season =
     (case get_available_teams e k league season of
        (out, Inl err) \<Rightarrow> (out, Inl err)
      | (out, Inr available_teams) \<Rightarrow> (out, Inr (match_in_roster available_teams team_input)))"

section \<open>The seasons of one team from the fast source\<close>

record season_stat =
  Season :: string
  League :: string
  Team :: string
  Matches_Played :: int
  Wins :: int
  Draws :: int
  Losses :: int
  Goals_For :: int
  Goals_Against :: int
  Goal_Difference :: int
  Points :: int
  Win_Percentage :: rat
  Goals_Per_Game :: rat
  Goals_Against_Per_Game :: rat

text \<open>
  The three ratios. Each divides only behind the guard \<open>mp > 0 and pd.notna(...)\<close> and
  is \<open>0\<close> otherwise.
\<close>

definition win_percentage :: "rat option \<Rightarrow> rat option \<Rightarrow> error + rat" where
  "win_percentage wins mp =
     (case (mp, wins) of
        (Some m, Some w) \<Rightarrow>
          (if gt_zero mp then ebind (py_truediv w m) (\<lambda>q. Inr (py_round (q * 100) 1))
           else Inr 0)
      | _ \<Rightarrow> Inr 0)"

definition per_game :: "rat option \<Rightarrow> rat option \<Rightarrow> error + rat" where
  "per_game goals mp =
     (case (mp, goals) of
        (Some m, Some g) \<Rightarrow>
          (if gt_zero mp then ebind (py_truediv g m) (\<lambda>q. Inr (py_round q 2))
           else Inr 0)
      | _ \<Rightarrow> Inr 0)"

text \<open>
  The dictionary built for one row (the entries are evaluated in the order written, so
  the first \<open>int()\<close> that raises decides the exception).
\<close>

definition row_stats :: "env \<Rightarrow> string \<Rightarrow> string \<Rightarrow> table_row \<Rightarrow> error + season_stat" where
  "row_stats e league season team_row =
     (let mp = to_numeric e (row_MP team_row);
          wins = to_numeric e (row_W team_row);
          goals_for = to_numeric e (row_GF team_row);
          goals_against = to_numeric e (row_GA team_row)
      in
      ebind (int_or_zero e (row_W team_row)) (\<lambda>w.
      ebind (int_or_zero e (row_D team_row)) (\<lambda>d.
      ebind (int_or_zero e (row_L team_row)) (\<lambda>l.
      ebind (int_or_zero e (row_GD team_row)) (\<lambda>gd.
      ebind (int_or_zero e (row_Pts team_row)) (\<lambda>pts.
      ebind (win_percentage wins mp) (\<lambda>wp.
      ebind (per_game goals_for mp) (\<lambda>gpg.
      ebind (per_game goals_against mp) (\<lambda>gapg.
        Inr \<lparr> Season = season,
              League = title league,
              Team = row_team team_row,
              Matches_Played = int_or_zero_num mp,
              Wins = w,
              Draws = d,
              Losses = l,
              Goals_For = int_or_zero_num goals_for,
              Goals_Against = int_or_zero_num goals_against,
              Goal_Difference = gd,
              Points = pts,
              Win_Percentage = wp,
              Goals_Per_Game = gpg,
              Goals_Against_Per_Game = gapg \<rparr>)))))))))"

text \<open>
  One pass of the loop over the seasons, inside its \<open>try\<close>: the messages printed and
  the entry appended, if any. Every exception ends the pass without an entry.
\<close>

definition season_stats ::
  "env \<Rightarrow> nat \<Rightarrow> string \<Rightarrow> string \<Rightarrow> string \<Rightarrow> string \<Rightarrow>
     log_msg list \<times> season_stat option" where
  "season_stats e k league league_code correct_team_name season =
     (case read_league_table e k league_code season of
        Inl err \<Rightarrow> ([SeasonProgress season, ErrorFetchingSeason season err], None)
      | Inr league_table \<Rightarrow>
          (case filter (\<lambda>r. row_team r = correct_team_name) league_table of
             [] \<Rightarrow> ([SeasonProgress season, TeamNotInSeason correct_team_name season], None)
           | team_row # others \<Rightarrow>
               (case row_stats e league season team_row of
                  Inl err \<Rightarrow> ([SeasonProgress season, ErrorFetchingSeason season err], None)
                | Inr stats \<Rightarrow> ([SeasonProgress season], Some stats))))"

text \<open>The loop: each pass is one more call to the provider.\<close>

fun season_loop ::
  "env \<Rightarrow> nat \<Rightarrow> string \<Rightarrow> string \<Rightarrow> string \<Rightarrow> string list \<Rightarrow>
     log_msg list \<times> season_stat list \<Rightarrow> log_msg list \<times> season_stat list" where
  "season_loop e k league league_code correct_team_name [] acc = acc"
| "season_loop e k league league_code correct_team_name (season # rest) (out, team_stats) =
     (case season_stats e k league league_code correct_team_name season of
        (msgs, None) \<Rightarrow>
          season_loop e (Suc k) league league_code correct_team_name rest
            (out @ msgs, team_stats)
      | (msgs, Some stats) \<Rightarrow>
          season_loop e (Suc k) league league_code correct_team_name rest
            (out @ msgs, team_stats @ [stats]))"

text \<open>
  \<open>get_team_league_table_stats\<close>. The roster fetch of the team match is call 0 of the
  run. \<open>if not correct_team_name\<close> holds for \<open>None\<close> and for the empty name; the roster
  is then fetched a second time for the message, by call 1, which need not answer as
  call 0 did. Otherwise the five passes of the loop are the calls 1 to 5.
\<close>

definition team_not_found ::
  "env \<Rightarrow> nat \<Rightarrow> string \<Rightarrow> log_msg list \<Rightarrow> log_msg list \<times> (error + season_stat list)" where
  "team_not_found e k league out1 =
     (case get_available_teams e k league ''2024/2025'' of
        (out2, Inl err) \<Rightarrow> (out1 @ out2, Inl err)
      | (out2, Inr available_teams) \<Rightarrow> (out1 @ out2, Inl (TeamNotFound available_teams)))"

definition get_team_league_table_stats ::
  "env \<Rightarrow> string \<Rightarrow> string \<Rightarrow> log_msg list \<times> (error + season_stat list)" where
  "get_team_league_table_stats e league team =
     (case league_code_of league of
        None \<Rightarrow> ([], Inl (LeagueNotFound (map fst league_mappings)))
      | Some league_code \<Rightarrow>
          (case find_team_match e 0 league team ''2024/2025'' of
             (out1, Inl err) \<Rightarrow> (out1, Inl err)
           | (out1, Inr None) \<Rightarrow> team_not_found e 1 league out1
           | (out1, Inr (Some correct_team_name)) \<Rightarrow>
               (if correct_team_name = [] then team_not_found e 1 league out1
                else
                  (case season_loop e 1 league league_code correct_team_name seasons
                          (out1 @ [FoundTeam correct_team_name team,
                                   FetchingStats correct_team_name league], []) of
                     (out, team_stats) \<Rightarrow>
                       (if team_stats = [] then (out, Inl NoDataFound)
                        else (out, Inr team_stats))))))"

section \<open>The estimate-everything path\<close>

text \<open>
  The three arrays drawn from \<open>np.random.normal\<close> are parameters: the draw for the row
  at each position.
\<close>

record noise =
  shots_noise :: "nat \<Rightarrow> rat"
  xgf_noise :: "nat \<Rightarrow> rat"
  xga_noise :: "nat \<Rightarrow> rat"

record enhanced_stat =
  basic :: season_stat
  Avg_Possession :: rat
  Shots_Per_Game :: rat
  Expected_Goals_For :: rat
  Expected_Goals_Against :: rat

definition clip :: "rat \<Rightarrow> rat \<Rightarrow> rat \<Rightarrow> rat" where
  "clip lo hi x = (if x < lo then lo else if hi < x then hi else x)"

definition estimate_possession :: "season_stat \<Rightarrow> rat" where
  "estimate_possession row =
     py_round (min 65 (max 35 (50 + of_int (Goal_Difference row) * (3 / 10)
                                  + of_int (Points row) * (1 / 10)))) 1"

definition estimate_shots :: "rat \<Rightarrow> season_stat \<Rightarrow> rat" where
  "estimate_shots z row = clip 8 20 (py_round (Goals_Per_Game row * 6 + z) 1)"

definition estimate_xg :: "rat \<Rightarrow> int \<Rightarrow> rat" where
  "estimate_xg z goals = py_round (of_int goals * (9 / 10 + z)) 1"

definition enhance_row :: "noise \<Rightarrow> nat \<times> season_stat \<Rightarrow> enhanced_stat" where
  "enhance_row nz ir =
     (case ir of (i, row) \<Rightarrow>
        \<lparr> basic = row,
          Avg_Possession = estimate_possession row,
          Shots_Per_Game = estimate_shots (shots_noise nz i) row,
          Expected_Goals_For = estimate_xg (xgf_noise nz i) (Goals_For row),
          Expected_Goals_Against = estimate_xg (xga_noise nz i) (Goals_Against row) \<rparr>)"

definition get_enhanced_team_stats ::
  "env \<Rightarrow> noise \<Rightarrow> string \<Rightarrow> string \<Rightarrow> error + enhanced_stat list" where
  "get_enhanced_team_stats e nz league team =
     (case snd (get_team_league_table_stats e league team) of
        Inl err \<Rightarrow> Inl err
      | Inr basic_stats \<Rightarrow> Inr (map (enhance_row nz) (enumerate 0 basic_stats)))"

section \<open>The report\<close>

text \<open>\<open>Series.mean()\<close>: NaN (\<open>None\<close>) on an empty column.\<close>

definition mean :: "rat list \<Rightarrow> rat option" where
  "mean xs = (if xs = [] then None else Some (sum_list xs / of_nat (length xs)))"

text \<open>\<open>idxmax\<close> and \<open>idxmin\<close>: the first row among those with the extreme value.\<close>

fun first_max :: "('a \<Rightarrow> int) \<Rightarrow> 'a list \<Rightarrow> 'a option" where
  "first_max f [] = None"
| "first_max f (x # xs) =
     (case first_max f xs of
        None \<Rightarrow> Some x
      | Some y \<Rightarrow> if f x < f y then Some y else Some x)"

definition first_min :: "('a \<Rightarrow> int) \<Rightarrow> 'a list \<Rightarrow> 'a option" where
  "first_min f xs = first_max (\<lambda>x. - f x) xs"

record summary =
  avg_points :: "rat option"
  avg_goals_per_game :: "rat option"
  avg_goals_against_per_game :: "rat option"
  avg_goal_difference :: "rat option"
  avg_win_percentage :: "rat option"
  avg_possession :: "rat option"
  avg_shots_per_game :: "rat option"
  best_season :: "(string \<times> int) option"
  worst_season :: "(string \<times> int) option"

definition season_points :: "enhanced_stat \<Rightarrow> string \<times> int" where
  "season_points r = (Season (basic r), Points (basic r))"

definition summary_stats :: "enhanced_stat list \<Rightarrow> summary" where
  "summary_stats stats_df =
     \<lparr> avg_points = mean (map (\<lambda>r. of_int (Points (basic r))) stats_df),
       avg_goals_per_game = mean (map (\<lambda>r. Goals_Per_Game (basic r)) stats_df),
       avg_goals_against_per_game = mean (map (\<lambda>r. Goals_Against_Per_Game (basic r)) stats_df),
       avg_goal_difference = mean (map (\<lambda>r. of_int (Goal_Difference (basic r))) stats_df),
       avg_win_percentage = mean (map (\<lambda>r. Win_Percentage (basic r)) stats_df),
       avg_possession = mean (map Avg_Possession stats_df),
       avg_shots_per_game = mean (map Shots_Per_Game stats_df),
       best_season = map_option season_points (first_max (\<lambda>r. Points (basic r)) stats_df),
       worst_season = map_option season_points (first_min (\<lambda>r. Points (basic r)) stats_df) \<rparr>"

text \<open>
  \<open>display_team_stats\<close>: the table and its summary, or \<open>None\<close> when anything raised.
\<close>

definition display_team_stats ::
  "env \<Rightarrow> noise \<Rightarrow> string \<Rightarrow> string \<Rightarrow> (enhanced_stat list \<times> summary) option" where
  "display_team_stats e nz league team =
     (case get_enhanced_team_stats e nz league team of
        Inl err \<Rightarrow> None
      | Inr stats_df \<Rightarrow> Some (stats_df, summary_stats stats_df))"

section \<open>The detailed source\<close>

text \<open>
  A cell of a table of the detailed source, and a value computed from such cells, is a
  plain Python number, a numpy scalar (finite, infinite or NaN) or something that is
  not a number. The two kinds of number differ where the program divides: on plain
  Python numbers a zero divisor raises ZeroDivisionError, while a division in which a
  numpy scalar takes part follows IEEE 754 and returns an infinity or NaN (with a
  warning, not an exception). The cells that pandas hands out from a numeric column
  are numpy scalars; the defaults \<open>0\<close> and \<open>1\<close> written in the program are plain Python
  numbers. Signed zeros and rounding are not modelled.
\<close>

datatype npfloat = Fin rat | PosInf | NegInf | NanF

datatype dcell = PyNum rat | NpNum npfloat | Txt string

fun np_div :: "npfloat \<Rightarrow> npfloat \<Rightarrow> npfloat" where
  "np_div NanF y = NanF"
| "np_div (Fin a) NanF = NanF"
| "np_div PosInf NanF = NanF"
| "np_div NegInf NanF = NanF"
| "np_div (Fin a) (Fin b) =
     (if b \<noteq> 0 then Fin (a / b)
      else if 0 < a then PosInf else if a < 0 then NegInf else NanF)"
| "np_div (Fin a) PosInf = Fin 0"
| "np_div (Fin a) NegInf = Fin 0"
| "np_div PosInf (Fin b) = (if 0 \<le> b then PosInf else NegInf)"
| "np_div NegInf (Fin b) = (if 0 \<le> b then NegInf else PosInf)"
| "np_div PosInf PosInf = NanF"
| "np_div PosInf NegInf = NanF"
| "np_div NegInf PosInf = NanF"
| "np_div NegInf NegInf = NanF"

text \<open>\<open>a / b\<close> on two cells.\<close>

fun truediv :: "dcell \<Rightarrow> dcell \<Rightarrow> error + dcell" where
  "truediv (PyNum a) (PyNum b) =
     (if b = 0 then Inl PyZeroDivisionError else Inr (PyNum (a / b)))"
| "truediv (PyNum a) (NpNum b) = Inr (NpNum (np_div (Fin a) b))"
| "truediv (NpNum a) (PyNum b) = Inr (NpNum (np_div a (Fin b)))"
| "truediv (NpNum a) (NpNum b) = Inr (NpNum (np_div a b))"
| "truediv (Txt a) y = Inl PyTypeError"
| "truediv (PyNum a) (Txt b) = Inl PyTypeError"
| "truediv (NpNum a) (Txt b) = Inl PyTypeError"

text \<open>\<open>c * k\<close> for a finite Python float \<open>k\<close>, as in \<open>Shots_Per_Game * 0.35\<close>.\<close>

fun scale :: "rat \<Rightarrow> dcell \<Rightarrow> error + dcell" where
  "scale k (PyNum a) = Inr (PyNum (a * k))"
| "scale k (NpNum (Fin a)) = Inr (NpNum (Fin (a * k)))"
| "scale k (NpNum PosInf) = Inr (NpNum (if 0 < k then PosInf else if k < 0 then NegInf else NanF))"
| "scale k (NpNum NegInf) = Inr (NpNum (if 0 < k then NegInf else if k < 0 then PosInf else NanF))"
| "scale k (NpNum NanF) = Inr (NpNum NanF)"
| "scale k (Txt a) = Inl PyTypeError"

text \<open>
  A row of a table of the detailed source: its key (league, season, team) and its other
  columns by name. \<open>row.get(name, default)\<close> gives the default where the column is
  not there.
\<close>

record detail_row =
  d_league :: string
  d_season :: string
  d_team :: string
  d_cols :: "(string \<times> dcell) list"

definition row_get :: "detail_row \<Rightarrow> string \<Rightarrow> dcell \<Rightarrow> dcell" where
  "row_get r name dflt = (case map_of (d_cols r) name of None \<Rightarrow> dflt | Some c \<Rightarrow> c)"

text \<open>
  \<open>read_team_season_stats stat_type\<close> is the call to the detailed provider, which may
  raise. \<open>str_contains pat\<close> is \<open>Series.str.contains(pat, case=False, na=False)\<close>, which
  reads \<open>pat\<close> as a regular expression: \<open>None\<close> when \<open>pat\<close> does not compile, otherwise
  the test applied to each team.
\<close>

record fbref_env =
  read_team_season_stats :: "string \<Rightarrow> error + detail_row list"
  str_contains :: "string \<Rightarrow> (string \<Rightarrow> bool) option"

text \<open>
  For a pattern without metacharacters the test is plain containment, letter case
  ignored.
\<close>

definition contains_literal :: "string \<Rightarrow> (string \<Rightarrow> bool) option" where
  "contains_literal pat = Some (\<lambda>s. str_in (lower pat) (lower s))"

definition fbref_league_mappings :: "(string \<times> string) list" where
  "fbref_league_mappings =
    [(''england'', ''Premier League''),
     (''premier league'', ''Premier League''),
     (''epl'', ''Premier League''),
     (''spain'', ''La Liga''),
     (''la liga'', ''La Liga''),
     (''germany'', ''Bundesliga''),
     (''bundesliga'', ''Bundesliga''),
     (''italy'', ''Serie A''),
     (''serie a'', ''Serie A''),
     (''france'', ''Ligue 1''),
     (''ligue 1'', ''Ligue 1'')]"

definition fbref_seasons :: "string list" where
  "fbref_seasons = [''2024-2025'', ''2023-2024'', ''2022-2023'', ''2021-2022'', ''2020-2021'']"

text \<open>The dictionary \<open>season_data\<close>: a key that was not set is \<open>None\<close>.\<close>

record standard_part =
  sp_Season :: string
  sp_Team :: string
  sp_League :: string
  sp_Matches_Played :: dcell
  sp_Wins :: dcell
  sp_Draws :: dcell
  sp_Losses :: dcell
  sp_Goals_For :: dcell
  sp_Goals_Against :: dcell
  sp_Goal_Difference :: dcell
  sp_Points :: dcell

record season_data =
  sd_standard :: "standard_part option"
  sd_Avg_Possession :: "dcell option"
  sd_Shots_Per_Game :: "dcell option"
  sd_Shots_on_Target_Per_Game :: "dcell option"

text \<open>The rows of one table for a league, a season and a team pattern.\<close>

definition select_rows ::
  "(string \<Rightarrow> bool) \<Rightarrow> string \<Rightarrow> string \<Rightarrow> detail_row list \<Rightarrow> detail_row list" where
  "select_rows matches league_name season tbl =
     filter (\<lambda>r. d_league r = league_name \<and> d_season r = season \<and> matches (d_team r)) tbl"

definition standard_of :: "string \<Rightarrow> string \<Rightarrow> detail_row \<Rightarrow> standard_part" where
  "standard_of league_name season std_row =
     \<lparr> sp_Season = season,
       sp_Team = d_team std_row,
       sp_League = league_name,
       sp_Matches_Played = row_get std_row ''mp'' (PyNum 0),
       sp_Wins = row_get std_row ''w'' (PyNum 0),
       sp_Draws = row_get std_row ''d'' (PyNum 0),
       sp_Losses = row_get std_row ''l'' (PyNum 0),
       sp_Goals_For = row_get std_row ''gf'' (PyNum 0),
       sp_Goals_Against = row_get std_row ''ga'' (PyNum 0),
       sp_Goal_Difference = row_get std_row ''gd'' (PyNum 0),
       sp_Points = row_get std_row ''pts'' (PyNum 0) \<rparr>"

text \<open>\<open>season_data.get('Matches_Played', 1)\<close>\<close>

definition matches_played_or_one :: "standard_part option \<Rightarrow> dcell" where
  "matches_played_or_one std = (case std of None \<Rightarrow> PyNum 1 | Some sp \<Rightarrow> sp_Matches_Played sp)"

text \<open>One pass of the loop over the seasons: the dictionary, or the exception of a division.\<close>

definition fbref_season ::
  "(string \<Rightarrow> bool) \<Rightarrow> string \<Rightarrow> detail_row list \<Rightarrow> detail_row list \<Rightarrow> detail_row list \<Rightarrow>
     string \<Rightarrow> error + season_data" where
  "fbref_season matches league_name standard_stats possession_stats shooting_stats season =
     (let std = (case select_rows matches league_name season standard_stats of
                   [] \<Rightarrow> None
                 | std_row # others \<Rightarrow> Some (standard_of league_name season std_row));
          poss = (case select_rows matches league_name season possession_stats of
                    [] \<Rightarrow> None
                  | poss_row # others \<Rightarrow> Some (row_get poss_row ''poss'' (PyNum 0)))
      in
      (case select_rows matches league_name season shooting_stats of
         [] \<Rightarrow>
           Inr \<lparr> sd_standard = std, sd_Avg_Possession = poss,
                 sd_Shots_Per_Game = None, sd_Shots_on_Target_Per_Game = None \<rparr>
       | shot_row # others \<Rightarrow>
           ebind (truediv (row_get shot_row ''sh'' (PyNum 0)) (matches_played_or_one std)) (\<lambda>spg.
           ebind (truediv (row_get shot_row ''sot'' (PyNum 0)) (matches_played_or_one std)) (\<lambda>sotpg.
             Inr \<lparr> sd_standard = std, sd_Avg_Possession = poss,
                   sd_Shots_Per_Game = Some spg,
                   sd_Shots_on_Target_Per_Game = Some sotpg \<rparr>))))"

text \<open>\<open>if season_data:\<close> holds for a dictionary with at least one key.\<close>

definition nonempty_data :: "season_data \<Rightarrow> bool" where
  "nonempty_data sd =
     (sd_standard sd \<noteq> None \<or> sd_Avg_Possession sd \<noteq> None \<or> sd_Shots_Per_Game sd \<noteq> None)"

fun fbref_loop ::
  "(string \<Rightarrow> bool) \<Rightarrow> string \<Rightarrow> detail_row list \<Rightarrow> detail_row list \<Rightarrow> detail_row list \<Rightarrow>
     string list \<Rightarrow> season_data list \<Rightarrow> error + season_data list" where
  "fbref_loop matches league_name standard_stats possession_stats shooting_stats [] team_data =
     Inr team_data"
| "fbref_loop matches league_name standard_stats possession_stats shooting_stats
     (season # rest) team_data =
     (case fbref_season matches league_name standard_stats possession_stats shooting_stats season of
        Inl err \<Rightarrow> Inl err
      | Inr sd \<Rightarrow>
          fbref_loop matches league_name standard_stats possession_stats shooting_stats rest
            (if nonempty_data sd then team_data @ [sd] else team_data))"

text \<open>
  The body of \<open>get_fbref_team_stats\<close> inside its \<open>try\<close>, with every exception as a value,
  and the function itself, which turns every exception into \<open>None\<close>.
\<close>

definition fbref_body :: "fbref_env \<Rightarrow> string \<Rightarrow> string \<Rightarrow> error + season_data list option" where
  "fbref_body fe league team =
     ebind (read_team_season_stats fe ''standard'') (\<lambda>standard_stats.
     ebind (read_team_season_stats fe ''possession'') (\<lambda>possession_stats.
     ebind (read_team_season_stats fe ''shooting'') (\<lambda>shooting_stats.
       (case map_of fbref_league_mappings (lower league) of
          None \<Rightarrow> Inr None
        | Some league_name \<Rightarrow>
            (case str_contains fe team of
               None \<Rightarrow> Inl RegexError
             | Some matches \<Rightarrow>
                 ebind (fbref_loop matches league_name standard_stats possession_stats
                          shooting_stats fbref_seasons []) (\<lambda>team_data.
                   Inr (if team_data = [] then None else Some team_data)))))))"

definition get_fbref_team_stats :: "fbref_env \<Rightarrow> string \<Rightarrow> string \<Rightarrow> season_data list option" where
  "get_fbref_team_stats fe league team =
     (case fbref_body fe league team of Inl err \<Rightarrow> None | Inr r \<Rightarrow> r)"

section \<open>The hybrid path\<close>

record hybrid_stat =
  h_basic :: season_stat
  h_Avg_Possession :: dcell
  h_Shots_Per_Game :: dcell
  h_Shots_on_Target_Per_Game :: dcell

datatype hybrid_frame = BasicFrame "season_stat list" | MergedFrame "hybrid_stat list"

text \<open>The season label of a row of the detailed frame (NaN where the key was not set).\<close>

definition sd_Season :: "season_data \<Rightarrow> string option" where
  "sd_Season sd = map_option sp_Season (sd_standard sd)"

text \<open>
  \<open>fbref_stats[['Season', 'Avg_Possession', 'Shots_Per_Game', 'Shots_on_Target_Per_Game']]\<close>:
  a frame built from dictionaries has a column for each key that some dictionary has;
  selecting a column that is not there raises KeyError.
\<close>

definition has_columns :: "season_data list \<Rightarrow> bool" where
  "has_columns fbref_stats =
     (list_ex (\<lambda>sd. sd_standard sd \<noteq> None) fbref_stats \<and>
      list_ex (\<lambda>sd. sd_Avg_Possession sd \<noteq> None) fbref_stats \<and>
      list_ex (\<lambda>sd. sd_Shots_Per_Game sd \<noteq> None) fbref_stats \<and>
      list_ex (\<lambda>sd. sd_Shots_on_Target_Per_Game sd \<noteq> None) fbref_stats)"

text \<open>
  \<open>pd.merge(basic_stats, ..., on='Season', how='left')\<close>: each row of the left frame, in
  order, once for each row of the right frame with the same season label, and once
  with three missing values when there is none.
\<close>

definition merge_row ::
  "season_data list \<Rightarrow> season_stat \<Rightarrow> (season_stat \<times> dcell option \<times> dcell option \<times> dcell option) list" where
  "merge_row fbref_stats b =
     (case filter (\<lambda>sd. sd_Season sd = Some (Season b)) fbref_stats of
        [] \<Rightarrow> [(b, None, None, None)]
      | m # ms \<Rightarrow>
          map (\<lambda>sd. (b, sd_Avg_Possession sd, sd_Shots_Per_Game sd, sd_Shots_on_Target_Per_Game sd))
            (m # ms))"

definition merge_left ::
  "season_stat list \<Rightarrow> season_data list \<Rightarrow>
     (season_stat \<times> dcell option \<times> dcell option \<times> dcell option) list" where
  "merge_left basic_stats fbref_stats = concat (map (merge_row fbref_stats) basic_stats)"

text \<open>\<open>fillna\<close>: a missing value or a NaN is replaced.\<close>

fun fillna :: "dcell option \<Rightarrow> dcell \<Rightarrow> dcell" where
  "fillna None v = v"
| "fillna (Some (NpNum NanF)) v = v"
| "fillna (Some c) v = c"

definition hybrid_possession :: "season_stat \<Rightarrow> rat" where
  "hybrid_possession row = min 65 (max 35 (50 + of_int (Goal_Difference row) * (3 / 10)))"

text \<open>
  The three \<open>fillna\<close> steps on one merged row. The product \<open>Shots_Per_Game * 0.35\<close> is
  computed for the whole column, so a cell that cannot be multiplied raises.
\<close>

definition fill_row ::
  "season_stat \<times> dcell option \<times> dcell option \<times> dcell option \<Rightarrow> error + hybrid_stat" where
  "fill_row m =
     (case m of (b, poss, spg, sotpg) \<Rightarrow>
        (let spg' = fillna spg (NpNum (Fin (Goals_Per_Game b * 6))) in
         ebind (scale (35 / 100) spg') (\<lambda>est_sot.
           Inr \<lparr> h_basic = b,
                 h_Avg_Possession = fillna poss (NpNum (Fin (hybrid_possession b))),
                 h_Shots_Per_Game = spg',
                 h_Shots_on_Target_Per_Game = fillna sotpg est_sot \<rparr>)))"

fun fill_rows ::
  "(season_stat \<times> dcell option \<times> dcell option \<times> dcell option) list \<Rightarrow> error + hybrid_stat list" where
  "fill_rows [] = Inr []"
| "fill_rows (m # ms) =
     ebind (fill_row m) (\<lambda>h. ebind (fill_rows ms) (\<lambda>hs. Inr (h # hs)))"

text \<open>
  \<open>get_hybrid_team_stats\<close>: \<open>None\<close> when the fast source failed; the frame of the fast
  source alone when the detailed fetch gave nothing; the merged frame otherwise.
  An exception after the first \<open>try\<close> is not caught here.
\<close>

definition get_hybrid_team_stats ::
  "env \<Rightarrow> fbref_env \<Rightarrow> string \<Rightarrow> string \<Rightarrow> error + hybrid_frame option" where
  "get_hybrid_team_stats e fe league team =
     (case snd (get_team_league_table_stats e league team) of
        Inl err \<Rightarrow> Inr None
      | Inr basic_stats \<Rightarrow>
          (case get_fbref_team_stats fe league team of
             None \<Rightarrow> Inr (Some (BasicFrame basic_stats))
           | Some fbref_stats \<Rightarrow>
               (if fbref_stats = [] then Inr (Some (BasicFrame basic_stats))
                else if \<not> has_columns fbref_stats then Inl PyKeyError
                else ebind (fill_rows (merge_left basic_stats fbref_stats)) (\<lambda>merged_stats.
                       Inr (Some (MergedFrame merged_stats))))))"

section \<open>Vocabulary of the claims\<close>

text \<open>A raw cell that \<open>int(c) if pd.notna(c) else 0\<close> accepts.\<close>

definition int_ok :: "env \<Rightarrow> cell \<Rightarrow> bool" where
  "int_ok e c = (case int_or_zero e c of Inl err \<Rightarrow> False | Inr i \<Rightarrow> True)"

text \<open>A row whose five cells that are read without coercion are all accepted.\<close>

definition row_converts :: "env \<Rightarrow> table_row \<Rightarrow> bool" where
  "row_converts e r =
     (int_ok e (row_W r) \<and> int_ok e (row_D r) \<and> int_ok e (row_L r) \<and>
      int_ok e (row_GD r) \<and> int_ok e (row_Pts r))"

text \<open>
  A row whose wins, where the win percentage is computed at all, lie between zero and
  the matches played.
\<close>

definition wins_within :: "env \<Rightarrow> table_row \<Rightarrow> bool" where
  "wins_within e r =
     (case (to_numeric e (row_W r), to_numeric e (row_MP r)) of
        (Some w, Some m) \<Rightarrow> m \<le> 0 \<or> (0 \<le> w \<and> w \<le> m)
      | (Some w, None) \<Rightarrow> True
      | (None, m) \<Rightarrow> True)"

text \<open>A merged value that counts as missing for \<open>fillna\<close>.\<close>

definition isna :: "dcell option \<Rightarrow> bool" where
  "isna c = (c = None \<or> c = Some (NpNum NanF))"

text \<open>
  The first row for the resolved team in the table of a season, as call \<open>k\<close> reads it,
  if it can be read.
\<close>

definition matching_row ::
  "env \<Rightarrow> nat \<Rightarrow> string \<Rightarrow> string \<Rightarrow> string \<Rightarrow> table_row option" where
  "matching_row e k league_code name season =
     (case read_league_table e k league_code season of
        Inl err \<Rightarrow> None
      | Inr league_table \<Rightarrow>
          (case filter (\<lambda>r. row_team r = name) league_table of
             [] \<Rightarrow> None
           | team_row # others \<Rightarrow> Some team_row))"

text \<open>A pass of the loop, given by its call number and its season, gets a row for the team.\<close>

definition yields_row :: "env \<Rightarrow> string \<Rightarrow> string \<Rightarrow> nat \<times> string \<Rightarrow> bool" where
  "yields_row e league_code name pass =
     (case pass of (k, season) \<Rightarrow> matching_row e k league_code name season \<noteq> None)"

text \<open>The passes of the loop of one run: the seasons with the calls 1 to 5.\<close>

definition passes :: "(nat \<times> string) list" where
  "passes = enumerate 1 seasons"

text \<open>
  Team resolution as the specification words it: the first roster name equal to the
  query (letter case ignored); failing that, the first roster name that contains the
  query or is contained in it (letter case ignored); failing that, the name the
  nickname table gives for the query, if the roster has that name; failing that,
  nothing.
\<close>

definition resolve_spec :: "string list \<Rightarrow> string \<Rightarrow> string option" where
  "resolve_spec roster query =
     (case find (\<lambda>t. lower t = lower query) roster of
        Some t \<Rightarrow> Some t
      | None \<Rightarrow>
          (case find (\<lambda>t. str_in (lower query) (lower t) \<or> str_in (lower t) (lower query))
                  roster of
             Some t \<Rightarrow> Some t
           | None \<Rightarrow>
               (case map_of team_variations (lower query) of
                  Some mapped \<Rightarrow> if mapped \<in> set roster then Some mapped else None
                | None \<Rightarrow> None)))"

text \<open>
  The matching rows of all five passes are accepted by the \<open>int()\<close> conversions.
\<close>

definition rows_convert :: "env \<Rightarrow> string \<Rightarrow> string \<Rightarrow> bool" where
  "rows_convert e league_code name =
     list_all (\<lambda>(k, season). case matching_row e k league_code name season of
                               None \<Rightarrow> True
                             | Some r \<Rightarrow> row_converts e r) passes"

text \<open>A row of the hybrid frame all of whose detailed fields are the estimates.\<close>

definition estimated_row :: "season_stat \<Rightarrow> hybrid_stat" where
  "estimated_row b =
     \<lparr> h_basic = b,
       h_Avg_Possession = NpNum (Fin (hybrid_possession b)),
       h_Shots_Per_Game = NpNum (Fin (Goals_Per_Game b * 6)),
       h_Shots_on_Target_Per_Game = NpNum (Fin (Goals_Per_Game b * 6 * (35 / 100))) \<rparr>"




section \<open>Example inputs\<close>

text \<open>
  An instance of the two parsers for the examples: a text of decimal digits is the
  number it writes, and no other text is a number (what both library parsers do on
  the texts used below).
\<close>

fun digits_val :: "nat \<Rightarrow> string \<Rightarrow> nat option" where
  "digits_val acc [] = Some acc"
| "digits_val acc (c # cs) =
     (let n = (of_char c :: nat)
      in if 48 \<le> n \<and> n \<le> 57 then digits_val (acc * 10 + (n - 48)) cs else None)"

definition parse_digits :: "string \<Rightarrow> nat option" where
  "parse_digits s = (if s = [] then None else digits_val 0 s)"

definition table_env :: "(nat \<Rightarrow> string \<Rightarrow> string \<Rightarrow> error + table_row list) \<Rightarrow> env" where
  "table_env provider =
     \<lparr> read_league_table = provider,
       to_numeric_str = (\<lambda>s. map_option of_nat (parse_digits s)),
       int_of_str = (\<lambda>s. map_option int (parse_digits s)) \<rparr>"

definition num_row ::
  "string \<Rightarrow> rat \<Rightarrow> rat \<Rightarrow> rat \<Rightarrow> rat \<Rightarrow> rat \<Rightarrow> rat \<Rightarrow> rat \<Rightarrow> rat \<Rightarrow> table_row" where
  "num_row t mp w d l gf ga gd pts =
     \<lparr> row_team = t, row_MP = Num mp, row_W = Num w, row_D = Num d, row_L = Num l,
       row_GF = Num gf, row_GA = Num ga, row_GD = Num gd, row_Pts = Num pts \<rparr>"

text \<open>A provider that is down.\<close>

definition no_provider :: "nat \<Rightarrow> string \<Rightarrow> string \<Rightarrow> error + table_row list" where
  "no_provider k league_code season = Inl ProviderFailure"


text \<open>A provider with one table for the current season and none for the others.\<close>

definition one_season ::
  "table_row list \<Rightarrow> nat \<Rightarrow> string \<Rightarrow> string \<Rightarrow> error + table_row list" where
  "one_season tbl k league_code season =
     (if season = ''2024/2025'' then Inr tbl else Inl ProviderFailure)"

definition quiet :: noise where
  "quiet = \<lparr> shots_noise = (\<lambda>i. 0), xgf_noise = (\<lambda>i. 0), xga_noise = (\<lambda>i. 0) \<rparr>"

text \<open>A side that has not played yet.\<close>

definition unplayed_row :: table_row where
  "unplayed_row = num_row ''Arsenal'' 0 0 0 0 0 0 0 0"

definition unplayed_stat :: season_stat where
  "unplayed_stat =
     \<lparr> Season = ''2024/2025'', League = ''England'', Team = ''Arsenal'',
       Matches_Played = 0, Wins = 0, Draws = 0, Losses = 0, Goals_For = 0,
       Goals_Against = 0, Goal_Difference = 0, Points = 0, Win_Percentage = 0,
       Goals_Per_Game = 0, Goals_Against_Per_Game = 0 \<rparr>"

text \<open>A row that reports more wins than matches, and the entry computed from it.\<close>

definition over_row :: table_row where
  "over_row = num_row ''Arsenal'' 38 40 0 0 10 5 5 120"

definition over_stat :: season_stat where
  "over_stat =
     \<lparr> Season = ''2024/2025'', League = ''England'', Team = ''Arsenal'',
       Matches_Played = 38, Wins = 40, Draws = 0, Losses = 0, Goals_For = 10,
       Goals_Against = 5, Goal_Difference = 5, Points = 120, Win_Percentage = 1053 / 10,
       Goals_Per_Game = 26 / 100, Goals_Against_Per_Game = 13 / 100 \<rparr>"

text \<open>An ordinary row, and what the three paths make of it.\<close>

definition good_row :: table_row where
  "good_row = num_row ''Arsenal'' 38 26 6 6 88 43 45 84"

definition good_stat :: season_stat where
  "good_stat =
     \<lparr> Season = ''2024/2025'', League = ''England'', Team = ''Arsenal'',
       Matches_Played = 38, Wins = 26, Draws = 6, Losses = 6, Goals_For = 88,
       Goals_Against = 43, Goal_Difference = 45, Points = 84, Win_Percentage = 684 / 10,
       Goals_Per_Game = 232 / 100, Goals_Against_Per_Game = 113 / 100 \<rparr>"

definition good_enhanced :: enhanced_stat where
  "good_enhanced =
     \<lparr> basic = good_stat, Avg_Possession = 65, Shots_Per_Game = 139 / 10,
       Expected_Goals_For = 792 / 10, Expected_Goals_Against = 387 / 10 \<rparr>"

definition good_hybrid :: hybrid_stat where
  "good_hybrid =
     \<lparr> h_basic = good_stat, h_Avg_Possession = NpNum (Fin (635 / 10)),
       h_Shots_Per_Game = NpNum (Fin (1392 / 100)),
       h_Shots_on_Target_Per_Game = NpNum (Fin (4872 / 1000)) \<rparr>"

text \<open>A roster with and without the club behind a nickname.\<close>

definition london :: "table_row list" where
  "london = [num_row ''Chelsea'' 38 20 10 8 60 40 20 70,
             num_row ''Tottenham Hotspur'' 38 18 10 10 60 50 10 64]"

text \<open>Rows with text in them, and a row whose goal difference is not goals for minus goals against.\<close>

definition bad_pts_row :: table_row where
  "bad_pts_row = good_row \<lparr> row_Pts := Str ''abc'' \<rparr>"

definition text_row :: table_row where
  "text_row = good_row \<lparr> row_MP := Str ''n/a'', row_GF := Str ''n/a'', row_GA := Str ''n/a'' \<rparr>"

definition text_stat :: season_stat where
  "text_stat =
     \<lparr> Season = ''2024/2025'', League = ''England'', Team = ''Arsenal'',
       Matches_Played = 0, Wins = 26, Draws = 6, Losses = 6, Goals_For = 0,
       Goals_Against = 0, Goal_Difference = 45, Points = 84, Win_Percentage = 0,
       Goals_Per_Game = 0, Goals_Against_Per_Game = 0 \<rparr>"

definition mismatch_row :: table_row where
  "mismatch_row = num_row ''Arsenal'' 38 26 6 6 88 43 99 84"

definition mismatch_stat :: season_stat where
  "mismatch_stat = good_stat \<lparr> Goal_Difference := 99 \<rparr>"

definition good_log :: "log_msg list" where
  "good_log =
     [FoundTeam ''Arsenal'' ''arsenal'', FetchingStats ''Arsenal'' ''england'',
      SeasonProgress ''2024/2025'',
      SeasonProgress ''2023/2024'', ErrorFetchingSeason ''2023/2024'' ProviderFailure,
      SeasonProgress ''2022/2023'', ErrorFetchingSeason ''2022/2023'' ProviderFailure,
      SeasonProgress ''2021/2022'', ErrorFetchingSeason ''2021/2022'' ProviderFailure,
      SeasonProgress ''2020/2021'', ErrorFetchingSeason ''2020/2021'' ProviderFailure]"

text \<open>
  Providers with rows for the team in three of the five seasons, and with a row that
  cannot be converted in one of two seasons; a noise that is not zero; and the reports
  they lead to.
\<close>

definition three_seasons :: "nat \<Rightarrow> string \<Rightarrow> string \<Rightarrow> error + table_row list" where
  "three_seasons k league_code season =
     (if season = ''2024/2025'' then Inr [good_row]
      else if season = ''2023/2024'' then Inl ProviderFailure
      else if season = ''2022/2023''
        then Inr [num_row ''Chelsea'' 38 20 10 8 60 40 20 70,
                  num_row ''Arsenal'' 38 22 3 13 61 48 13 69]
      else if season = ''2021/2022'' then Inr [num_row ''Chelsea'' 38 21 11 6 76 33 43 74]
      else Inr [num_row ''Arsenal'' 38 18 7 13 55 39 16 61])"

definition two_seasons :: "nat \<Rightarrow> string \<Rightarrow> string \<Rightarrow> error + table_row list" where
  "two_seasons k league_code season =
     (if season = ''2024/2025'' then Inr [good_row]
      else if season = ''2023/2024'' then Inr [bad_pts_row]
      else Inr [])"

text \<open>A club that left the league two seasons ago.\<close>

definition relegated :: "nat \<Rightarrow> string \<Rightarrow> string \<Rightarrow> error + table_row list" where
  "relegated k league_code season =
     (if season = ''2024/2025'' \<or> season = ''2023/2024''
      then Inr [num_row ''Chelsea'' 38 20 10 8 60 40 20 70]
      else Inr [num_row ''Chelsea'' 38 21 11 6 76 33 43 74,
                num_row ''Leeds United'' 38 9 11 18 42 79 (-37) 38])"

definition bump :: noise where
  "bump = \<lparr> shots_noise = (\<lambda>i. of_nat i / 2), xgf_noise = (\<lambda>i. 1 / 10),
            xga_noise = (\<lambda>i. - of_nat i / 10) \<rparr>"

definition three_report :: "enhanced_stat list" where
  "three_report =
     [\<lparr> basic = good_stat,
        Avg_Possession = 65, Shots_Per_Game = 139 / 10,
        Expected_Goals_For = 88, Expected_Goals_Against = 387 / 10 \<rparr>,
      \<lparr> basic =
          \<lparr> Season = ''2022/2023'', League = ''England'', Team = ''Arsenal'',
            Matches_Played = 38, Wins = 22, Draws = 3, Losses = 13,
            Goals_For = 61, Goals_Against = 48, Goal_Difference = 13,
            Points = 69, Win_Percentage = 579 / 10,
            Goals_Per_Game = 161 / 100, Goals_Against_Per_Game = 126 / 100 \<rparr>,
        Avg_Possession = 608 / 10, Shots_Per_Game = 102 / 10,
        Expected_Goals_For = 61, Expected_Goals_Against = 384 / 10 \<rparr>,
      \<lparr> basic =
          \<lparr> Season = ''2020/2021'', League = ''England'', Team = ''Arsenal'',
            Matches_Played = 38, Wins = 18, Draws = 7, Losses = 13,
            Goals_For = 55, Goals_Against = 39, Goal_Difference = 16,
            Points = 61, Win_Percentage = 474 / 10,
            Goals_Per_Game = 145 / 100, Goals_Against_Per_Game = 103 / 100 \<rparr>,
        Avg_Possession = 609 / 10, Shots_Per_Game = 97 / 10,
        Expected_Goals_For = 55, Expected_Goals_Against = 273 / 10 \<rparr>]"

definition three_summary :: summary where
  "three_summary =
     \<lparr> avg_points = Some (214 / 3), avg_goals_per_game = Some (269 / 150),
       avg_goals_against_per_game = Some (57 / 50),
       avg_goal_difference = Some (74 / 3),
       avg_win_percentage = Some (579 / 10),
       avg_possession = Some (1867 / 30),
       avg_shots_per_game = Some (169 / 15),
       best_season = Some (''2024/2025'', 84),
       worst_season = Some (''2020/2021'', 61) \<rparr>"

definition good_summary :: summary where
  "good_summary =
     \<lparr> avg_points = Some 84, avg_goals_per_game = Some (232 / 100),
       avg_goals_against_per_game = Some (113 / 100),
       avg_goal_difference = Some 45,
       avg_win_percentage = Some (684 / 10),
       avg_possession = Some 65,
       avg_shots_per_game = Some (139 / 10),
       best_season = Some (''2024/2025'', 84),
       worst_season = Some (''2024/2025'', 84) \<rparr>"

text \<open>Tables of the detailed source for the examples, all of the Premier League.\<close>

definition detail :: "string \<Rightarrow> string \<Rightarrow> (string \<times> dcell) list \<Rightarrow> detail_row" where
  "detail season t kvs =
     \<lparr> d_league = ''Premier League'', d_season = season, d_team = t, d_cols = kvs \<rparr>"

definition fbref_tables ::
  "detail_row list \<Rightarrow> detail_row list \<Rightarrow> detail_row list \<Rightarrow> fbref_env" where
  "fbref_tables standard possession shooting =
     \<lparr> read_team_season_stats =
         (\<lambda>stat_type. if stat_type = ''standard'' then Inr standard
                       else if stat_type = ''possession'' then Inr possession
                       else if stat_type = ''shooting'' then Inr shooting
                       else Inl ProviderFailure),
       str_contains = contains_literal \<rparr>"

text \<open>A detailed source without rows, and one with a standard row only.\<close>

definition fbref_empty :: fbref_env where
  "fbref_empty = fbref_tables [] [] []"

definition fbref_standard_only :: fbref_env where
  "fbref_standard_only =
     fbref_tables [detail ''2024-2025'' ''Arsenal'' [(''mp'', NpNum (Fin 38))]] [] []"

text \<open>
  Two clubs whose names contain the query \<open>united\<close>, listed in a different order by the
  two sources, and what the run on that query gives.
\<close>

definition uniteds :: "table_row list" where
  "uniteds = [num_row ''Manchester United'' 38 18 6 14 57 58 (-1) 60,
              num_row ''Newcastle United'' 38 18 6 14 85 62 23 60]"

definition fbref_newcastle :: fbref_env where
  "fbref_newcastle = fbref_tables
     [detail ''2024-2025'' ''Newcastle United'' [(''mp'', NpNum (Fin 38))],
      detail ''2024-2025'' ''Manchester United'' [(''mp'', NpNum (Fin 38))]]
     [detail ''2024-2025'' ''Newcastle United'' [(''poss'', NpNum (Fin 40))],
      detail ''2024-2025'' ''Manchester United'' [(''poss'', NpNum (Fin 60))]]
     [detail ''2024-2025'' ''Newcastle United'' [(''sh'', NpNum (Fin 380)), (''sot'', NpNum (Fin 190))],
      detail ''2024-2025'' ''Manchester United'' [(''sh'', NpNum (Fin 760)), (''sot'', NpNum (Fin 380))]]"

text \<open>The standard part of a season whose row has the column \<open>mp\<close> only.\<close>

definition standard_mp :: "string \<Rightarrow> string \<Rightarrow> dcell \<Rightarrow> standard_part" where
  "standard_mp season t mp =
     \<lparr> sp_Season = season, sp_Team = t, sp_League = ''Premier League'',
       sp_Matches_Played = mp, sp_Wins = PyNum 0, sp_Draws = PyNum 0, sp_Losses = PyNum 0,
       sp_Goals_For = PyNum 0, sp_Goals_Against = PyNum 0, sp_Goal_Difference = PyNum 0,
       sp_Points = PyNum 0 \<rparr>"

definition newcastle_data :: season_data where
  "newcastle_data =
     \<lparr> sd_standard = Some (standard_mp ''2024-2025'' ''Newcastle United'' (NpNum (Fin 38))),
       sd_Avg_Possession = Some (NpNum (Fin 40)),
       sd_Shots_Per_Game = Some (NpNum (Fin 10)),
       sd_Shots_on_Target_Per_Game = Some (NpNum (Fin 5)) \<rparr>"
















definition united_stat :: season_stat where
  "united_stat =
     \<lparr> Season = ''2024/2025'', League = ''England'', Team = ''Manchester United'',
       Matches_Played = 38, Wins = 18, Draws = 6, Losses = 14, Goals_For = 57,
       Goals_Against = 58, Goal_Difference = - 1, Points = 60, Win_Percentage = 474 / 10,
       Goals_Per_Game = 150 / 100, Goals_Against_Per_Game = 153 / 100 \<rparr>"

definition united_hybrid :: hybrid_stat where
  "united_hybrid =
     \<lparr> h_basic = united_stat,
       h_Avg_Possession = NpNum (Fin (497 / 10)),
       h_Shots_Per_Game = NpNum (Fin 9),
       h_Shots_on_Target_Per_Game = NpNum (Fin (315 / 100)) \<rparr>"

section \<open>Auxiliary facts\<close>

subsection \<open>Rounding stays between whole bounds\<close>

lemma round_half_even_between:
  assumes "of_int a \<le> q" and "q \<le> of_int b"
  shows "a \<le> round_half_even q \<and> round_half_even q \<le> b"
proof -
  have lo: "a \<le> \<lfloor>q\<rfloor>" using assms(1) by (simp add: le_floor_iff)
  have hi: "\<lfloor>q\<rfloor> \<le> b" using assms(2) by (simp add: floor_le_iff)
  have step: "\<lfloor>q\<rfloor> + 1 \<le> b" if ne: "q \<noteq> of_int \<lfloor>q\<rfloor>"
  proof -
    have "\<lfloor>q\<rfloor> \<noteq> b"
    proof
      assume top: "\<lfloor>q\<rfloor> = b"
      then have "of_int b \<le> q" using of_int_floor_le [of q] by simp
      with assms(2) have "q = of_int b" by simp
      with top ne show False by simp
    qed
    with hi show ?thesis by simp
  qed
  show ?thesis
    unfolding round_half_even_def Let_def using lo hi step by auto
qed

lemma py_round_between:
  assumes "of_int a \<le> q" and "q \<le> of_int b"
  shows "of_int a \<le> py_round q n \<and> py_round q n \<le> of_int b"
proof -
  have pos: "(0::rat) < 10 ^ n" by simp
  have l: "of_int (a * 10 ^ n) \<le> q * 10 ^ n" using assms(1) pos by simp
  have h: "q * 10 ^ n \<le> of_int (b * 10 ^ n)" using assms(2) pos by simp
  from round_half_even_between [OF l h]
  have "a * 10 ^ n \<le> round_half_even (q * 10 ^ n)"
    and "round_half_even (q * 10 ^ n) \<le> b * 10 ^ n"
    by simp_all
  then have "(of_int (a * 10 ^ n) :: rat) \<le> of_int (round_half_even (q * 10 ^ n))"
    and "(of_int (round_half_even (q * 10 ^ n)) :: rat) \<le> of_int (b * 10 ^ n)"
    by (simp_all only: of_int_le_iff)
  then show ?thesis
    unfolding py_round_def using pos by (simp add: pos_le_divide_eq pos_divide_le_eq)
qed

subsection \<open>The dictionary of one row\<close>

lemma win_percentage_total: "\<exists>x. win_percentage w m = Inr x"
  by (auto simp: win_percentage_def ebind_def py_truediv_def gt_zero_def split: option.splits)

lemma per_game_total: "\<exists>x. per_game g m = Inr x"
  by (auto simp: per_game_def ebind_def py_truediv_def gt_zero_def split: option.splits)

lemma win_percentage_zero: "\<not> gt_zero m \<Longrightarrow> win_percentage w m = Inr 0"
  by (auto simp: win_percentage_def split: option.splits)

lemma per_game_zero: "\<not> gt_zero m \<Longrightarrow> per_game g m = Inr 0"
  by (auto simp: per_game_def split: option.splits)

lemma int_or_zero_error: "int_or_zero e c = Inl err \<Longrightarrow> err = PyValueError"
  by (cases c) (auto simp: int_or_zero_def split: option.splits)

lemma row_stats_error: "row_stats e league season r = Inl err \<Longrightarrow> err = PyValueError"
  using win_percentage_total [of "to_numeric e (row_W r)" "to_numeric e (row_MP r)"]
    per_game_total [of "to_numeric e (row_GF r)" "to_numeric e (row_MP r)"]
    per_game_total [of "to_numeric e (row_GA r)" "to_numeric e (row_MP r)"]
  by (auto simp: row_stats_def Let_def ebind_def split: sum.splits dest: int_or_zero_error)

lemma row_stats_Inr:
  "row_stats e league season r = Inr st \<longleftrightarrow>
     (\<exists>w d l gd pts wp gpg gapg.
        int_or_zero e (row_W r) = Inr w \<and> int_or_zero e (row_D r) = Inr d \<and>
        int_or_zero e (row_L r) = Inr l \<and> int_or_zero e (row_GD r) = Inr gd \<and>
        int_or_zero e (row_Pts r) = Inr pts \<and>
        win_percentage (to_numeric e (row_W r)) (to_numeric e (row_MP r)) = Inr wp \<and>
        per_game (to_numeric e (row_GF r)) (to_numeric e (row_MP r)) = Inr gpg \<and>
        per_game (to_numeric e (row_GA r)) (to_numeric e (row_MP r)) = Inr gapg \<and>
        st = \<lparr> Season = season, League = title league, Team = row_team r,
               Matches_Played = int_or_zero_num (to_numeric e (row_MP r)),
               Wins = w, Draws = d, Losses = l,
               Goals_For = int_or_zero_num (to_numeric e (row_GF r)),
               Goals_Against = int_or_zero_num (to_numeric e (row_GA r)),
               Goal_Difference = gd, Points = pts,
               Win_Percentage = wp, Goals_Per_Game = gpg, Goals_Against_Per_Game = gapg \<rparr>)"
  by (auto simp: row_stats_def Let_def ebind_def split: sum.splits)

section \<open>The claims\<close>

text \<open>
  C5. No row makes the dictionary of a season raise ZeroDivisionError; and for a row
  whose matches played are zero, the win percentage, the goals per game and the goals
  against per game that are computed are all exactly zero.
\<close>

theorem zero_matches_give_zero_ratios:
  "row_stats e league season r \<noteq> Inl PyZeroDivisionError \<and>
   (to_numeric e (row_MP r) = Some 0 \<longrightarrow> row_stats e league season r = Inr st \<longrightarrow>
      Win_Percentage st = 0 \<and> Goals_Per_Game st = 0 \<and> Goals_Against_Per_Game st = 0)"
proof
  show "row_stats e league season r \<noteq> Inl PyZeroDivisionError"
    using row_stats_error [of e league season r PyZeroDivisionError] by auto
next
  show "to_numeric e (row_MP r) = Some 0 \<longrightarrow> row_stats e league season r = Inr st \<longrightarrow>
      Win_Percentage st = 0 \<and> Goals_Per_Game st = 0 \<and> Goals_Against_Per_Game st = 0"
    by (auto simp: row_stats_Inr win_percentage_zero per_game_zero gt_zero_def)
qed

theorem zero_matches_give_zero_ratios_witness:
  "to_numeric (table_env no_provider) (row_MP unplayed_row) = Some 0 \<and>
   row_stats (table_env no_provider) ''england'' ''2024/2025'' unplayed_row = Inr unplayed_stat \<and>
   Win_Percentage unplayed_stat = 0 \<and> Goals_Per_Game unplayed_stat = 0 \<and>
   Goals_Against_Per_Game unplayed_stat = 0"
proof -
  have mp: "to_numeric (table_env no_provider) (row_MP unplayed_row) = Some 0"
    by (simp add: unplayed_row_def num_row_def)
  have st: "row_stats (table_env no_provider) ''england'' ''2024/2025'' unplayed_row
              = Inr unplayed_stat"
    by code_simp
  from zero_matches_give_zero_ratios
         [of "table_env no_provider" "''england''" "''2024/2025''" unplayed_row unplayed_stat]
       mp st
  show ?thesis by blast
qed

subsection \<open>Bounds of the win percentage and of the possession estimates\<close>

lemma possession_basic_between:
  "35 \<le> estimate_possession row \<and> estimate_possession row \<le> 65"
  using py_round_between [of 35 "min 65 (max 35 (50 + of_int (Goal_Difference row) * (3 / 10)
                                  + of_int (Points row) * (1 / 10)))" 65 1]
  by (simp add: estimate_possession_def)

lemma possession_hybrid_between:
  "35 \<le> hybrid_possession row \<and> hybrid_possession row \<le> 65"
  by (simp add: hybrid_possession_def)

lemma win_percentage_between:
  assumes "win_percentage (Some w) (Some m) = Inr wp" and "m \<le> 0 \<or> (0 \<le> w \<and> w \<le> m)"
  shows "0 \<le> wp \<and> wp \<le> 100"
proof (cases "0 < m")
  case False
  with assms(1) show ?thesis by (simp add: win_percentage_def gt_zero_def)
next
  case True
  with assms(2) have w: "0 \<le> w" "w \<le> m" by auto
  from True assms(1) have wp: "wp = py_round (w / m * 100) 1"
    by (simp add: win_percentage_def gt_zero_def ebind_def py_truediv_def)
  have "0 \<le> w / m * 100" using True w by simp
  moreover have "w / m * 100 \<le> 100" using True w by (simp add: pos_divide_le_eq)
  ultimately show ?thesis
    using py_round_between [of 0 "w / m * 100" 100 1] wp by simp
qed

lemma win_percentage_NaN:
  "win_percentage w m = Inr wp \<Longrightarrow> w = None \<or> m = None \<Longrightarrow> wp = 0"
  by (auto simp: win_percentage_def split: option.splits)

lemma win_percentage_within:
  assumes st: "row_stats e league season r = Inr st" and within: "wins_within e r"
  shows "0 \<le> Win_Percentage st \<and> Win_Percentage st \<le> 100"
proof -
  from st have wp: "win_percentage (to_numeric e (row_W r)) (to_numeric e (row_MP r))
                      = Inr (Win_Percentage st)"
    by (auto simp: row_stats_Inr)
  show ?thesis
  proof (cases "to_numeric e (row_W r)")
    case None
    with wp show ?thesis using win_percentage_NaN by fastforce
  next
    case (Some w)
    show ?thesis
    proof (cases "to_numeric e (row_MP r)")
      case None
      with wp show ?thesis using win_percentage_NaN by fastforce
    next
      case m: (Some m)
      with Some within wp show ?thesis
        using win_percentage_between [of w m "Win_Percentage st"]
        by (simp add: wins_within_def)
    qed
  qed
qed

text \<open>
  C6, as stated, fails: the win percentage is not clamped, and a row that reports 40
  wins in 38 matches gets 105.3.
\<close>

theorem win_percentage_above_100:
  "row_stats (table_env no_provider) ''england'' ''2024/2025'' over_row = Inr over_stat \<and>
   \<not> Win_Percentage over_stat \<le> 100"
  by code_simp

text \<open>
  C6, amended. For every computed season row whose wins lie between zero and the
  matches played, the win percentage lies in [0, 100]. Every possession value that is
  estimated lies in [35, 65]: each row of the estimate-everything path, and each row of
  the hybrid path whose merged possession was missing.
\<close>

theorem win_percentage_and_possession_bounds:
  "(row_stats e league season r = Inr st \<longrightarrow> wins_within e r \<longrightarrow>
      0 \<le> Win_Percentage st \<and> Win_Percentage st \<le> 100) \<and>
   (get_enhanced_team_stats e nz league team = Inr df \<longrightarrow>
      (\<forall>x \<in> set df. 35 \<le> Avg_Possession x \<and> Avg_Possession x \<le> 65)) \<and>
   (fill_row (b, poss, spg, sotpg) = Inr h \<longrightarrow> isna poss \<longrightarrow>
      (\<exists>q. h_Avg_Possession h = NpNum (Fin q) \<and> 35 \<le> q \<and> q \<le> 65))"
proof (intro conjI impI)
  assume "row_stats e league season r = Inr st" and "wins_within e r"
  then show "0 \<le> Win_Percentage st" and "Win_Percentage st \<le> 100"
    using win_percentage_within by blast+
next
  assume "get_enhanced_team_stats e nz league team = Inr df"
  then show "\<forall>x \<in> set df. 35 \<le> Avg_Possession x \<and> Avg_Possession x \<le> 65"
    using possession_basic_between
    by (auto simp: get_enhanced_team_stats_def enhance_row_def split: sum.splits)
next
  assume "fill_row (b, poss, spg, sotpg) = Inr h" and "isna poss"
  then show "\<exists>q. h_Avg_Possession h = NpNum (Fin q) \<and> 35 \<le> q \<and> q \<le> 65"
    using possession_hybrid_between [of b]
    by (auto simp: fill_row_def isna_def Let_def ebind_def split: sum.splits)
qed

theorem win_percentage_and_possession_bounds_witness:
  "row_stats (table_env (one_season [good_row])) ''england'' ''2024/2025'' good_row
     = Inr good_stat \<and>
   wins_within (table_env (one_season [good_row])) good_row \<and>
   0 \<le> Win_Percentage good_stat \<and> Win_Percentage good_stat \<le> 100 \<and>
   get_enhanced_team_stats (table_env (one_season [good_row])) quiet ''england'' ''arsenal''
     = Inr [good_enhanced] \<and>
   35 \<le> Avg_Possession good_enhanced \<and> Avg_Possession good_enhanced \<le> 65 \<and>
   fill_row (good_stat, None, None, None) = Inr good_hybrid \<and> isna None \<and>
   h_Avg_Possession good_hybrid = NpNum (Fin (127 / 2))"
proof -
  have a: "row_stats (table_env (one_season [good_row])) ''england'' ''2024/2025'' good_row
             = Inr good_stat"
    by code_simp
  have b: "wins_within (table_env (one_season [good_row])) good_row"
    by code_simp
  have c: "get_enhanced_team_stats (table_env (one_season [good_row])) quiet ''england''
             ''arsenal'' = Inr [good_enhanced]"
    by code_simp
  have d: "fill_row (good_stat, None, None, None) = Inr good_hybrid"
    by code_simp
  have e: "isna None" by (simp add: isna_def)
  have f: "h_Avg_Possession good_hybrid = NpNum (Fin (127 / 2))"
    by (simp add: good_hybrid_def)
  from win_percentage_and_possession_bounds
         [of "table_env (one_season [good_row])" "''england''" "''2024/2025''" good_row
             good_stat quiet "''arsenal''" "[good_enhanced]" good_stat None None None
             good_hybrid] a b c d e f
  show ?thesis by simp
qed

subsection \<open>The loops of the team resolution\<close>

lemma exact_match_find: "exact_match q roster = find (\<lambda>t. lower t = q) roster"
  by (induction roster) auto

lemma partial_match_find:
  "partial_match q roster = find (\<lambda>t. str_in q (lower t) \<or> str_in (lower t) q) roster"
  by (induction roster) auto

lemma match_in_roster_spec: "match_in_roster roster query = resolve_spec roster query"
  by (cases roster)
     (simp_all add: match_in_roster_def resolve_spec_def variation_match_def Let_def
        exact_match_find partial_match_find split: option.splits)

text \<open>
  C7. Team resolution fetches the roster and then tries, in this order and stopping at
  the first that matches: equality with a roster name, letter case ignored; containment
  in either direction, letter case ignored; the nickname table, whose name for the
  query counts only if the roster has it. If none matches the result is \<open>None\<close>.
\<close>

theorem find_team_match_order:
  "find_team_match e k league query season =
     (case get_available_teams e k league season of
        (out, Inl err) \<Rightarrow> (out, Inl err)
      | (out, Inr roster) \<Rightarrow> (out, Inr (resolve_spec roster query)))"
  by (simp add: find_team_match_def match_in_roster_spec split: prod.splits sum.splits)

theorem find_team_match_order_witness:
  "find_team_match (table_env (one_season london)) 0 ''england'' ''Spurs'' ''2024/2025''
     = ([], Inr (Some ''Tottenham Hotspur'')) \<and>
   find_team_match (table_env (one_season [good_row])) 0 ''england'' ''Spurs'' ''2024/2025''
     = ([], Inr None)"
proof -
  have a: "get_available_teams (table_env (one_season london)) 0 ''england'' ''2024/2025''
     = ([], Inr [''Chelsea'', ''Tottenham Hotspur''])"
    by code_simp
  have b: "resolve_spec [''Chelsea'', ''Tottenham Hotspur''] ''Spurs''
     = Some ''Tottenham Hotspur''"
    by code_simp
  have c: "get_available_teams (table_env (one_season [good_row])) 0 ''england'' ''2024/2025''
     = ([], Inr [''Arsenal''])"
    by code_simp
  have d: "resolve_spec [''Arsenal''] ''Spurs'' = None"
    by code_simp
  show ?thesis
    using find_team_match_order
            [of "table_env (one_season london)" 0 "''england''" "''Spurs''" "''2024/2025''"]
      find_team_match_order
            [of "table_env (one_season [good_row])" 0 "''england''" "''Spurs''" "''2024/2025''"]
      a b c d by simp
qed




subsection \<open>The loop over the seasons\<close>

lemma season_stats_Some:
  "season_stats e k league code name season = (msgs, Some st) \<longleftrightarrow>
     (\<exists>r. matching_row e k code name season = Some r \<and> row_stats e league season r = Inr st \<and>
          msgs = [SeasonProgress season])"
  by (auto simp: season_stats_def matching_row_def split: sum.splits list.splits)

lemma season_stats_None:
  "snd (season_stats e k league code name season) = None \<longleftrightarrow>
     (case matching_row e k code name season of
        None \<Rightarrow> True
      | Some r \<Rightarrow> (\<exists>err. row_stats e league season r = Inl err))"
  by (auto simp: season_stats_def matching_row_def split: sum.splits list.splits option.splits)

lemma int_ok_iff: "int_ok e c \<longleftrightarrow> (\<exists>i. int_or_zero e c = Inr i)"
  by (simp add: int_ok_def split: sum.splits)

lemma row_converts_iff: "row_converts e r \<longleftrightarrow> (\<exists>st. row_stats e league season r = Inr st)"
  using win_percentage_total [of "to_numeric e (row_W r)" "to_numeric e (row_MP r)"]
    per_game_total [of "to_numeric e (row_GF r)" "to_numeric e (row_MP r)"]
    per_game_total [of "to_numeric e (row_GA r)" "to_numeric e (row_MP r)"]
  by (auto simp: row_converts_def int_ok_iff row_stats_Inr)

lemma season_loop_eq:
  "season_loop e k league code name ss (out, acc) =
     (out @ concat (map (\<lambda>(i, s). fst (season_stats e i league code name s)) (enumerate k ss)),
      acc @ List.map_filter (\<lambda>(i, s). snd (season_stats e i league code name s))
              (enumerate k ss))"
proof (induction ss arbitrary: k out acc)
  case Nil
  show ?case by (simp add: map_filter_simps)
next
  case (Cons s ss)
  show ?case
    by (cases "season_stats e k league code name s")
       (auto simp: Cons.IH map_filter_simps split: option.splits)
qed

subsection \<open>Cells that are not numbers\<close>

text \<open>
  C4, as stated, fails: a points cell with the text \<open>abc\<close> does not become zero. The
  \<open>int()\<close> of the raw cell raises, the exception ends the pass of the loop, and the
  season is left out (here it was the only one, so the run ends without data).
\<close>

theorem unparseable_points_skip_season:
  "matching_row (table_env (one_season [bad_pts_row])) 1 ''ENG-Premier League'' ''Arsenal'' ''2024/2025''
     = Some bad_pts_row \<and>
   to_numeric (table_env (one_season [bad_pts_row])) (row_Pts bad_pts_row) = None \<and>
   season_stats (table_env (one_season [bad_pts_row])) 1 ''england'' ''ENG-Premier League''
       ''Arsenal'' ''2024/2025''
     = ([SeasonProgress ''2024/2025'', ErrorFetchingSeason ''2024/2025'' PyValueError], None) \<and>
   snd (get_team_league_table_stats (table_env (one_season [bad_pts_row])) ''england'' ''arsenal'')
     = Inl NoDataFound"
  by code_simp

lemma row_stats_unparsed:
  assumes "row_stats e league season r = Inr st"
  shows "(to_numeric e (row_MP r) = None \<longrightarrow>
            Matches_Played st = 0 \<and> Win_Percentage st = 0 \<and> Goals_Per_Game st = 0 \<and>
            Goals_Against_Per_Game st = 0) \<and>
         (to_numeric e (row_GF r) = None \<longrightarrow> Goals_For st = 0 \<and> Goals_Per_Game st = 0) \<and>
         (to_numeric e (row_GA r) = None \<longrightarrow> Goals_Against st = 0 \<and> Goals_Against_Per_Game st = 0)"
  using assms
  by (auto simp: row_stats_Inr int_or_zero_num_def win_percentage_def per_game_def
           split: option.splits)

text \<open>
  C4, amended. For every season row found in the fast source: if the W, D, L, GD and
  Pts cells are missing or convert under \<open>int()\<close>, the season is included, and an MP, GF
  or GA cell that does not parse as a number is zero in the entry, as are the ratios
  computed from it; if one of the W, D, L, GD and Pts cells is there and does not
  convert, the season is left out and reported as an error.
\<close>

theorem unparseable_cells:
  assumes "matching_row e k code name season = Some r"
  shows "(row_converts e r \<longrightarrow>
           (\<exists>st. season_stats e k league code name season = ([SeasonProgress season], Some st) \<and>
              (to_numeric e (row_MP r) = None \<longrightarrow>
                 Matches_Played st = 0 \<and> Win_Percentage st = 0 \<and> Goals_Per_Game st = 0 \<and>
                 Goals_Against_Per_Game st = 0) \<and>
              (to_numeric e (row_GF r) = None \<longrightarrow> Goals_For st = 0 \<and> Goals_Per_Game st = 0) \<and>
              (to_numeric e (row_GA r) = None \<longrightarrow>
                 Goals_Against st = 0 \<and> Goals_Against_Per_Game st = 0))) \<and>
         (\<not> row_converts e r \<longrightarrow>
            season_stats e k league code name season
              = ([SeasonProgress season, ErrorFetchingSeason season PyValueError], None))"
proof (intro conjI impI)
  assume "row_converts e r"
  then obtain st where st: "row_stats e league season r = Inr st"
    using row_converts_iff by blast
  with assms have "season_stats e k league code name season = ([SeasonProgress season], Some st)"
    by (simp add: season_stats_Some)
  with row_stats_unparsed [OF st]
  show "\<exists>st. season_stats e k league code name season = ([SeasonProgress season], Some st) \<and>
              (to_numeric e (row_MP r) = None \<longrightarrow>
                 Matches_Played st = 0 \<and> Win_Percentage st = 0 \<and> Goals_Per_Game st = 0 \<and>
                 Goals_Against_Per_Game st = 0) \<and>
              (to_numeric e (row_GF r) = None \<longrightarrow> Goals_For st = 0 \<and> Goals_Per_Game st = 0) \<and>
              (to_numeric e (row_GA r) = None \<longrightarrow>
                 Goals_Against st = 0 \<and> Goals_Against_Per_Game st = 0)"
    by - (rule exI [of _ st], simp)
next
  assume "\<not> row_converts e r"
  then have "\<exists>err. row_stats e league season r = Inl err"
    using row_converts_iff [of e r league season] by (cases "row_stats e league season r") auto
  then have "row_stats e league season r = Inl PyValueError"
    using row_stats_error by blast
  with assms show "season_stats e k league code name season
              = ([SeasonProgress season, ErrorFetchingSeason season PyValueError], None)"
    by (auto simp: season_stats_def matching_row_def split: sum.splits list.splits)
qed

theorem unparseable_cells_witness:
  "matching_row (table_env (one_season [text_row])) 1 ''ENG-Premier League'' ''Arsenal'' ''2024/2025''
     = Some text_row \<and>
   row_converts (table_env (one_season [text_row])) text_row \<and>
   to_numeric (table_env (one_season [text_row])) (row_MP text_row) = None \<and>
   to_numeric (table_env (one_season [text_row])) (row_GF text_row) = None \<and>
   to_numeric (table_env (one_season [text_row])) (row_GA text_row) = None \<and>
   season_stats (table_env (one_season [text_row])) 1 ''england'' ''ENG-Premier League''
       ''Arsenal'' ''2024/2025'' = ([SeasonProgress ''2024/2025''], Some text_stat) \<and>
   Matches_Played text_stat = 0 \<and> Goals_For text_stat = 0 \<and> Goals_Against text_stat = 0 \<and>
   Win_Percentage text_stat = 0 \<and> Goals_Per_Game text_stat = 0 \<and>
   Goals_Against_Per_Game text_stat = 0 \<and>
   matching_row (table_env (one_season [bad_pts_row])) 1 ''ENG-Premier League'' ''Arsenal'' ''2024/2025''
     = Some bad_pts_row \<and>
   \<not> row_converts (table_env (one_season [bad_pts_row])) bad_pts_row \<and>
   season_stats (table_env (one_season [bad_pts_row])) 1 ''england'' ''ENG-Premier League''
       ''Arsenal'' ''2024/2025''
     = ([SeasonProgress ''2024/2025'', ErrorFetchingSeason ''2024/2025'' PyValueError], None)"
proof -
  have a: "matching_row (table_env (one_season [text_row])) 1 ''ENG-Premier League'' ''Arsenal''
             ''2024/2025'' = Some text_row"
    by code_simp
  have b: "row_converts (table_env (one_season [text_row])) text_row"
    by code_simp
  have c: "to_numeric (table_env (one_season [text_row])) (row_MP text_row) = None"
    "to_numeric (table_env (one_season [text_row])) (row_GF text_row) = None"
    "to_numeric (table_env (one_season [text_row])) (row_GA text_row) = None"
    by code_simp+
  have d: "season_stats (table_env (one_season [text_row])) 1 ''england'' ''ENG-Premier League''
       ''Arsenal'' ''2024/2025'' = ([SeasonProgress ''2024/2025''], Some text_stat)"
    by code_simp
  have e: "matching_row (table_env (one_season [bad_pts_row])) 1 ''ENG-Premier League'' ''Arsenal''
             ''2024/2025'' = Some bad_pts_row"
    by code_simp
  have f: "\<not> row_converts (table_env (one_season [bad_pts_row])) bad_pts_row"
    by code_simp
  from unparseable_cells [OF a, of "''england''"] b c d
  have g: "Matches_Played text_stat = 0 \<and> Goals_For text_stat = 0 \<and> Goals_Against text_stat = 0 \<and>
   Win_Percentage text_stat = 0 \<and> Goals_Per_Game text_stat = 0 \<and>
   Goals_Against_Per_Game text_stat = 0"
    by simp
  from unparseable_cells [OF e, of "''england''"] f
  have h: "season_stats (table_env (one_season [bad_pts_row])) 1 ''england'' ''ENG-Premier League''
       ''Arsenal'' ''2024/2025''
     = ([SeasonProgress ''2024/2025'', ErrorFetchingSeason ''2024/2025'' PyValueError], None)"
    by simp
  from a b c d e f g h show ?thesis by simp
qed

text \<open>
  C8, as stated, fails: nothing is flagged. A row whose goal difference is 99 with 88
  goals for and 43 against goes into the table as it is, and the messages of the run
  are those of the run on the consistent row.
\<close>

theorem goal_difference_mismatch_not_flagged:
  "get_team_league_table_stats (table_env (one_season [mismatch_row])) ''england'' ''arsenal''
     = (good_log, Inr [mismatch_stat]) \<and>
   get_team_league_table_stats (table_env (one_season [good_row])) ''england'' ''arsenal''
     = (good_log, Inr [good_stat]) \<and>
   Goal_Difference mismatch_stat \<noteq> Goals_For mismatch_stat - Goals_Against mismatch_stat"
  by code_simp

text \<open>
  C8, amended. For every season row found in the fast source whose W, D, L, GD and
  Pts cells convert, the entry is produced, the only message of the season is its
  progress line, and the goal difference, the goals for and against, the matches
  played and the wins, draws and losses are each read from their own column: neither
  goal difference against goals, nor matches against results, is compared.
\<close>

theorem goal_difference_unchecked:
  assumes "matching_row e k code name season = Some r" and "row_converts e r"
  shows "\<exists>st. season_stats e k league code name season = ([SeasonProgress season], Some st) \<and>
           int_or_zero e (row_GD r) = Inr (Goal_Difference st) \<and>
           Goals_For st = int_or_zero_num (to_numeric e (row_GF r)) \<and>
           Goals_Against st = int_or_zero_num (to_numeric e (row_GA r)) \<and>
           Matches_Played st = int_or_zero_num (to_numeric e (row_MP r)) \<and>
           int_or_zero e (row_W r) = Inr (Wins st) \<and>
           int_or_zero e (row_D r) = Inr (Draws st) \<and>
           int_or_zero e (row_L r) = Inr (Losses st)"
proof -
  from assms(2) obtain st where st: "row_stats e league season r = Inr st"
    using row_converts_iff by blast
  with assms(1) have "season_stats e k league code name season = ([SeasonProgress season], Some st)"
    by (simp add: season_stats_Some)
  moreover from st have "int_or_zero e (row_GD r) = Inr (Goal_Difference st) \<and>
           Goals_For st = int_or_zero_num (to_numeric e (row_GF r)) \<and>
           Goals_Against st = int_or_zero_num (to_numeric e (row_GA r)) \<and>
           Matches_Played st = int_or_zero_num (to_numeric e (row_MP r)) \<and>
           int_or_zero e (row_W r) = Inr (Wins st) \<and>
           int_or_zero e (row_D r) = Inr (Draws st) \<and>
           int_or_zero e (row_L r) = Inr (Losses st)"
    by (auto simp: row_stats_Inr)
  ultimately show ?thesis by blast
qed

theorem goal_difference_unchecked_witness:
  "matching_row (table_env (one_season [mismatch_row])) 1 ''ENG-Premier League'' ''Arsenal''
     ''2024/2025'' = Some mismatch_row \<and>
   row_converts (table_env (one_season [mismatch_row])) mismatch_row \<and>
   season_stats (table_env (one_season [mismatch_row])) 1 ''england'' ''ENG-Premier League''
     ''Arsenal'' ''2024/2025'' = ([SeasonProgress ''2024/2025''], Some mismatch_stat) \<and>
   Goal_Difference mismatch_stat = 99 \<and> Goals_For mismatch_stat = 88 \<and> Goals_Against mismatch_stat = 43"
proof -
  have a: "matching_row (table_env (one_season [mismatch_row])) 1 ''ENG-Premier League'' ''Arsenal''
     ''2024/2025'' = Some mismatch_row"
    by code_simp
  have b: "row_converts (table_env (one_season [mismatch_row])) mismatch_row"
    by code_simp
  have c: "season_stats (table_env (one_season [mismatch_row])) 1 ''england'' ''ENG-Premier League''
     ''Arsenal'' ''2024/2025'' = ([SeasonProgress ''2024/2025''], Some mismatch_stat)"
    by code_simp
  have d: "Goal_Difference mismatch_stat = 99 \<and> Goals_For mismatch_stat = 88 \<and> Goals_Against mismatch_stat = 43"
    by code_simp
  from goal_difference_unchecked [OF a b, of "''england''"] a b c d show ?thesis by simp
qed

subsection \<open>The report\<close>

text \<open>
  C2, as stated, fails, in two ways. Two seasons have a row for the team, but the row
  of the second has text for its points, the season is dropped, and the report has
  one entry. And three seasons have a row for a club that is not in the table of the
  current season: the club is looked up in the roster of 2024/2025 only, it is not
  found, and there is no report.
\<close>

theorem matching_row_lost_from_report:
  "map snd (filter (yields_row (table_env two_seasons) ''ENG-Premier League'' ''Arsenal'') passes)
     = [''2024/2025'', ''2023/2024''] \<and>
   display_team_stats (table_env two_seasons) quiet ''england'' ''arsenal''
     = Some ([good_enhanced], good_summary) \<and>
   map snd (filter (yields_row (table_env relegated) ''ENG-Premier League'' ''Leeds United'')
              passes)
     = [''2022/2023'', ''2021/2022'', ''2020/2021''] \<and>
   snd (get_team_league_table_stats (table_env relegated) ''england'' ''Leeds United'')
     = Inl (TeamNotFound [''Chelsea'']) \<and>
   display_team_stats (table_env relegated) quiet ''england'' ''Leeds United'' = None"
  by code_simp

lemma season_stats_season:
  "season_stats e k league code name s = (msgs, Some st) \<Longrightarrow> Season st = s"
  by (auto simp: season_stats_Some row_stats_Inr)

lemma kept_seasons:
  assumes "list_all (\<lambda>(k, season). case matching_row e k code name season of
                               None \<Rightarrow> True
                             | Some r \<Rightarrow> row_converts e r) ps"
  shows "map Season (List.map_filter (\<lambda>(k, s). snd (season_stats e k league code name s)) ps)
           = map snd (filter (yields_row e code name) ps)"
  using assms
proof (induction ps)
  case Nil
  show ?case by (simp add: map_filter_simps)
next
  case (Cons p ps)
  obtain k s where p: "p = (k, s)" by (cases p)
  from Cons have IH:
    "map Season (List.map_filter (\<lambda>(k, s). snd (season_stats e k league code name s)) ps)
       = map snd (filter (yields_row e code name) ps)"
    by simp
  show ?case
  proof (cases "matching_row e k code name s")
    case None
    then have "snd (season_stats e k league code name s) = None"
      by (simp add: season_stats_None)
    moreover from None have "\<not> yields_row e code name (k, s)" by (simp add: yields_row_def)
    ultimately show ?thesis using IH p by (simp add: map_filter_simps)
  next
    case (Some r)
    with Cons.prems p have "row_converts e r" by simp
    then obtain st where st: "row_stats e league s r = Inr st"
      using row_converts_iff by blast
    with Some have full: "season_stats e k league code name s = ([SeasonProgress s], Some st)"
      by (simp add: season_stats_Some)
    then have "Season st = s" by (rule season_stats_season)
    moreover from Some have "yields_row e code name (k, s)" by (simp add: yields_row_def)
    ultimately show ?thesis using full IH p by (simp add: map_filter_simps)
  qed
qed

lemma basic_enhance: "map basic (map (enhance_row nz) (enumerate n xs)) = xs"
  by (induction xs arbitrary: n) (simp_all add: enhance_row_def)

lemma table_stats_resolved:
  assumes "league_code_of league = Some code"
    and "snd (find_team_match e 0 league team ''2024/2025'') = Inr (Some name)"
    and "name \<noteq> []"
  shows "snd (get_team_league_table_stats e league team) =
           (let team_stats =
                  List.map_filter (\<lambda>(k, s). snd (season_stats e k league code name s)) passes
            in if team_stats = [] then Inl NoDataFound else Inr team_stats)"
  using assms
  by (cases "find_team_match e 0 league team ''2024/2025''")
     (simp add: get_team_league_table_stats_def season_loop_eq Let_def passes_def)

lemma mean_nonempty: "xs \<noteq> [] \<Longrightarrow> mean xs = Some (sum_list xs / of_nat (length xs))"
  by (simp add: mean_def)

text \<open>
  C2, amended. For every run that resolves the team against the roster of the current
  season, in which the matching rows convert and at least one season has a matching
  row for the resolved name: the report has exactly one entry
  for each season with a matching row, in the order of the season list (newest first),
  no entry for any other season, and each mean of the summary is the sum over these
  entries divided by their number.
\<close>

theorem report_has_the_yielding_seasons:
  assumes code: "league_code_of league = Some code"
    and found: "snd (find_team_match e 0 league team ''2024/2025'') = Inr (Some name)"
    and name: "name \<noteq> []"
    and conv: "rows_convert e code name"
    and some: "filter (yields_row e code name) passes \<noteq> []"
  shows "\<exists>df. display_team_stats e nz league team = Some (df, summary_stats df) \<and>
           map (\<lambda>x. Season (basic x)) df = map snd (filter (yields_row e code name) passes) \<and>
           length df = length (filter (yields_row e code name) passes) \<and>
           avg_points (summary_stats df)
             = Some (sum_list (map (\<lambda>x. of_int (Points (basic x))) df)
                       / of_nat (length (filter (yields_row e code name) passes))) \<and>
           avg_goals_per_game (summary_stats df)
             = Some (sum_list (map (\<lambda>x. Goals_Per_Game (basic x)) df)
                       / of_nat (length (filter (yields_row e code name) passes))) \<and>
           avg_goals_against_per_game (summary_stats df)
             = Some (sum_list (map (\<lambda>x. Goals_Against_Per_Game (basic x)) df)
                       / of_nat (length (filter (yields_row e code name) passes))) \<and>
           avg_goal_difference (summary_stats df)
             = Some (sum_list (map (\<lambda>x. of_int (Goal_Difference (basic x))) df)
                       / of_nat (length (filter (yields_row e code name) passes))) \<and>
           avg_win_percentage (summary_stats df)
             = Some (sum_list (map (\<lambda>x. Win_Percentage (basic x)) df)
                       / of_nat (length (filter (yields_row e code name) passes))) \<and>
           avg_possession (summary_stats df)
             = Some (sum_list (map Avg_Possession df)
                       / of_nat (length (filter (yields_row e code name) passes))) \<and>
           avg_shots_per_game (summary_stats df)
             = Some (sum_list (map Shots_Per_Game df)
                       / of_nat (length (filter (yields_row e code name) passes)))"
proof -
  define team_stats where
    "team_stats = List.map_filter (\<lambda>(k, s). snd (season_stats e k league code name s)) passes"
  define df where "df = map (enhance_row nz) (enumerate 0 team_stats)"
  have seasons_kept: "map Season team_stats = map snd (filter (yields_row e code name) passes)"
    unfolding team_stats_def using conv by (simp add: rows_convert_def kept_seasons)
  with some have ne: "team_stats \<noteq> []" by auto
  have "snd (get_team_league_table_stats e league team) = Inr team_stats"
    using table_stats_resolved [OF code found name] ne by (simp add: team_stats_def Let_def)
  then have enh: "get_enhanced_team_stats e nz league team = Inr df"
    by (simp add: get_enhanced_team_stats_def df_def)
  then have disp: "display_team_stats e nz league team = Some (df, summary_stats df)"
    by (simp add: display_team_stats_def)
  have "map basic df = team_stats" unfolding df_def by (rule basic_enhance)
  then have "map Season (map basic df) = map snd (filter (yields_row e code name) passes)"
    using seasons_kept by simp
  then have order: "map (\<lambda>x. Season (basic x)) df = map snd (filter (yields_row e code name) passes)"
    by (simp add: comp_def)
  then have len: "length df = length (filter (yields_row e code name) passes)"
    by (metis length_map)
  from len some have dfne: "df \<noteq> []" by auto
  have means:
    "avg_points (summary_stats df)
       = Some (sum_list (map (\<lambda>x. of_int (Points (basic x))) df) / of_nat (length df))"
    "avg_goals_per_game (summary_stats df)
       = Some (sum_list (map (\<lambda>x. Goals_Per_Game (basic x)) df) / of_nat (length df))"
    "avg_goals_against_per_game (summary_stats df)
       = Some (sum_list (map (\<lambda>x. Goals_Against_Per_Game (basic x)) df) / of_nat (length df))"
    "avg_goal_difference (summary_stats df)
       = Some (sum_list (map (\<lambda>x. of_int (Goal_Difference (basic x))) df) / of_nat (length df))"
    "avg_win_percentage (summary_stats df)
       = Some (sum_list (map (\<lambda>x. Win_Percentage (basic x)) df) / of_nat (length df))"
    "avg_possession (summary_stats df)
       = Some (sum_list (map Avg_Possession df) / of_nat (length df))"
    "avg_shots_per_game (summary_stats df)
       = Some (sum_list (map Shots_Per_Game df) / of_nat (length df))"
    using dfne by (simp_all add: summary_stats_def mean_def)
  show ?thesis
    by (rule exI [of _ df]) (simp only: disp order len [symmetric] means simp_thms)
qed

theorem report_has_the_yielding_seasons_witness:
  "league_code_of ''england'' = Some ''ENG-Premier League'' \<and>
   snd (find_team_match (table_env three_seasons) 0 ''england'' ''arsenal'' ''2024/2025'')
     = Inr (Some ''Arsenal'') \<and>
   ''Arsenal'' \<noteq> [] \<and>
   rows_convert (table_env three_seasons) ''ENG-Premier League'' ''Arsenal'' \<and>
   map snd (filter (yields_row (table_env three_seasons) ''ENG-Premier League'' ''Arsenal'')
              passes)
     = [''2024/2025'', ''2022/2023'', ''2020/2021''] \<and>
   display_team_stats (table_env three_seasons) bump ''england'' ''arsenal''
     = Some (three_report, three_summary) \<and>
   length three_report = 3 \<and>
   avg_points three_summary = Some ((84 + 69 + 61) / 3)"
proof -
  have a: "league_code_of ''england'' = Some ''ENG-Premier League''" by code_simp
  have b: "snd (find_team_match (table_env three_seasons) 0 ''england'' ''arsenal'' ''2024/2025'')
     = Inr (Some ''Arsenal'')" by code_simp
  have c: "''Arsenal'' \<noteq> []" by simp
  have d: "rows_convert (table_env three_seasons) ''ENG-Premier League'' ''Arsenal''"
    by code_simp
  have f: "map snd (filter (yields_row (table_env three_seasons) ''ENG-Premier League''
                             ''Arsenal'') passes)
     = [''2024/2025'', ''2022/2023'', ''2020/2021'']"
    by code_simp
  then have g: "filter (yields_row (table_env three_seasons) ''ENG-Premier League'' ''Arsenal'')
                  passes \<noteq> []"
    by auto
  have h: "display_team_stats (table_env three_seasons) bump ''england'' ''arsenal''
     = Some (three_report, three_summary)"
    by code_simp
  from report_has_the_yielding_seasons [OF a b c d g, of bump] h f
  have "length three_report = 3 \<and>
        avg_points three_summary
          = Some (sum_list (map (\<lambda>x. of_int (Points (basic x))) three_report) / 3)"
    by auto
  moreover have "sum_list (map (\<lambda>x. of_int (Points (basic x))) three_report) = (84 + 69 + 61 :: rat)"
    by (simp add: three_report_def good_stat_def)
  ultimately show ?thesis using a b c d f h by simp
qed

subsection \<open>The detailed fetch and the merge\<close>

text \<open>
  C1. The hybrid path does not do what the claim says when the detailed source is
  absent. With a detailed source that has no rows the detailed fetch is \<open>None\<close>, and
  the hybrid path returns the frame of the fast source as it is: its rows have no
  possession, no shots per game and no shots on target per game, neither sourced nor
  estimated. With a detailed source that has a standard row only, the selection of
  the columns to merge raises KeyError.
\<close>

theorem hybrid_fallback_has_no_estimates:
  "get_fbref_team_stats fbref_empty ''england'' ''arsenal'' = None \<and>
   get_hybrid_team_stats (table_env (one_season [good_row])) fbref_empty ''england'' ''arsenal''
     = Inr (Some (BasicFrame [good_stat])) \<and>
   get_hybrid_team_stats (table_env (one_season [good_row])) fbref_standard_only ''england''
       ''arsenal'' = Inl PyKeyError"
  by code_simp

text \<open>
  What the detailed fetch selects: every standard row in its frame has a team that
  passes the test made from the raw query. The name resolved by the fast source plays
  no part.
\<close>

lemma fbref_season_team:
  "fbref_season m league_name st po sh season = Inr sd \<Longrightarrow> sd_standard sd = Some sp \<Longrightarrow>
     m (sp_Team sp)"
proof -
  assume a: "fbref_season m league_name st po sh season = Inr sd" and b: "sd_standard sd = Some sp"
  from a b obtain std_row others where
    sel: "select_rows m league_name season st = std_row # others"
    and sp: "sp = standard_of league_name season std_row"
    by (auto simp: fbref_season_def Let_def ebind_def split: list.splits sum.splits)
  from sel have "std_row \<in> set (select_rows m league_name season st)" by simp
  then have "m (d_team std_row)" by (simp add: select_rows_def)
  with sp show ?thesis by (simp add: standard_of_def)
qed

lemma fbref_loop_teams:
  assumes "fbref_loop m league_name st po sh ss acc = Inr fs"
    and "\<forall>sd \<in> set acc. \<forall>sp. sd_standard sd = Some sp \<longrightarrow> m (sp_Team sp)"
  shows "\<forall>sd \<in> set fs. \<forall>sp. sd_standard sd = Some sp \<longrightarrow> m (sp_Team sp)"
  using assms
proof (induction ss arbitrary: acc)
  case Nil
  then show ?case by simp
next
  case (Cons s ss)
  from Cons.prems(1) obtain sd where sd: "fbref_season m league_name st po sh s = Inr sd"
    and rest: "fbref_loop m league_name st po sh ss (if nonempty_data sd then acc @ [sd] else acc) = Inr fs"
    by (auto split: sum.splits)
  from fbref_season_team [OF sd] Cons.prems(2)
  have "\<forall>x \<in> set (if nonempty_data sd then acc @ [sd] else acc).
          \<forall>sp. sd_standard x = Some sp \<longrightarrow> m (sp_Team sp)"
    by auto
  with Cons.IH [OF rest] show ?case by blast
qed

lemma detailed_rows_contain_query:
  assumes "get_fbref_team_stats fe league team = Some fs"
    and "sd \<in> set fs" and "sd_standard sd = Some sp"
  shows "\<exists>m. str_contains fe team = Some m \<and> m (sp_Team sp)"
proof -
  from assms(1) obtain m league_name st po sh where
    m: "str_contains fe team = Some m"
    and "fbref_loop m league_name st po sh fbref_seasons [] = Inr fs"
    by (auto simp: get_fbref_team_stats_def fbref_body_def ebind_def
             split: sum.splits option.splits if_splits)
  from fbref_loop_teams [OF this(2)] assms(2,3) have "m (sp_Team sp)" by simp
  with m show ?thesis by blast
qed

text \<open>
  C9 at one input. For the query \<open>united\<close> the fast source resolves Manchester United,
  and the detailed fetch, which looks for the query in the team column, takes the rows
  of Newcastle United; but what the hybrid frame holds for the season are the
  estimates, not the values of the detailed rows.
\<close>

theorem other_team_fetched_but_not_merged:
  "snd (find_team_match (table_env (one_season uniteds)) 0 ''england'' ''united'' ''2024/2025'')
     = Inr (Some ''Manchester United'') \<and>
   get_fbref_team_stats fbref_newcastle ''england'' ''united'' = Some [newcastle_data] \<and>
   get_hybrid_team_stats (table_env (one_season uniteds)) fbref_newcastle ''england'' ''united''
     = Inr (Some (MergedFrame [united_hybrid]))"
  by code_simp

lemma map_filter_mem:
  "x \<in> set (List.map_filter f xs) \<Longrightarrow> \<exists>a \<in> set xs. f a = Some x"
  by (induction xs) (auto simp: map_filter_simps split: option.splits)

lemma basic_seasons:
  assumes "snd (get_team_league_table_stats e league team) = Inr bs" and "b \<in> set bs"
  shows "Season b \<in> set seasons"
proof -
  from assms(1) obtain code name where
    bs: "bs = List.map_filter (\<lambda>(k, s). snd (season_stats e k league code name s))
                (enumerate 1 seasons)"
    by (auto simp: get_team_league_table_stats_def team_not_found_def season_loop_eq
             split: option.splits prod.splits sum.splits if_splits)
  with assms(2) obtain k s where ks: "(k, s) \<in> set (enumerate 1 seasons)"
    and "snd (season_stats e k league code name s) = Some b"
    using map_filter_mem by fastforce
  then have "season_stats e k league code name s = (fst (season_stats e k league code name s), Some b)"
    by (metis prod.collapse)
  then have "Season b = s" by (rule season_stats_season)
  moreover from ks have "s \<in> set seasons" by (auto simp: in_set_enumerate_eq)
  ultimately show ?thesis by simp
qed

lemma fbref_season_label:
  "fbref_season m league_name st po sh season = Inr sd \<Longrightarrow>
     sd_Season sd = None \<or> sd_Season sd = Some season"
  by (auto simp: fbref_season_def sd_Season_def standard_of_def Let_def ebind_def
           split: list.splits sum.splits)

lemma fbref_loop_labels:
  assumes "fbref_loop m league_name st po sh ss acc = Inr fs"
    and "\<forall>sd \<in> set acc. sd_Season sd = None \<or> (\<exists>s \<in> set ss0. sd_Season sd = Some s)"
    and "set ss \<subseteq> set ss0"
  shows "\<forall>sd \<in> set fs. sd_Season sd = None \<or> (\<exists>s \<in> set ss0. sd_Season sd = Some s)"
  using assms
proof (induction ss arbitrary: acc)
  case Nil
  then show ?case by simp
next
  case (Cons s ss)
  from Cons.prems(1) obtain sd where sd: "fbref_season m league_name st po sh s = Inr sd"
    and rest: "fbref_loop m league_name st po sh ss (if nonempty_data sd then acc @ [sd] else acc) = Inr fs"
    by (auto split: sum.splits)
  from fbref_season_label [OF sd] Cons.prems(3)
  have "sd_Season sd = None \<or> (\<exists>s \<in> set ss0. sd_Season sd = Some s)" by auto
  with Cons.prems(2)
  have "\<forall>x \<in> set (if nonempty_data sd then acc @ [sd] else acc).
          sd_Season x = None \<or> (\<exists>s \<in> set ss0. sd_Season x = Some s)"
    by auto
  moreover from Cons.prems(3) have "set ss \<subseteq> set ss0" by simp
  ultimately show ?case using Cons.IH [OF rest] by blast
qed

lemma fbref_labels:
  assumes "get_fbref_team_stats fe league team = Some fs" and "sd \<in> set fs"
  shows "sd_Season sd = None \<or> (\<exists>s \<in> set fbref_seasons. sd_Season sd = Some s)"
proof -
  from assms(1) obtain m league_name st po sh where
    "fbref_loop m league_name st po sh fbref_seasons [] = Inr fs"
    by (auto simp: get_fbref_team_stats_def fbref_body_def ebind_def
             split: sum.splits option.splits if_splits)
  from fbref_loop_labels [OF this, of fbref_seasons] assms(2) show ?thesis by simp
qed

lemma labels_differ: "s \<in> set seasons \<Longrightarrow> s \<notin> set fbref_seasons"
  by (auto simp: seasons_def fbref_seasons_def)

lemma merge_row_unmatched:
  assumes "\<forall>sd \<in> set fs. sd_Season sd \<noteq> Some (Season b)"
  shows "merge_row fs b = [(b, None, None, None)]"
proof -
  from assms have "filter (\<lambda>sd. sd_Season sd = Some (Season b)) fs = []"
    by (simp add: filter_empty_conv)
  then show ?thesis by (simp add: merge_row_def)
qed

lemma fill_row_unmatched: "fill_row (b, None, None, None) = Inr (estimated_row b)"
  by (simp add: fill_row_def estimated_row_def ebind_def)

lemma fill_rows_unmatched:
  "fill_rows (map (\<lambda>b. (b, None, None, None)) bs) = Inr (map estimated_row bs)"
  by (induction bs) (simp_all add: fill_row_unmatched ebind_def)

lemma concat_singletons:
  "(\<And>x. x \<in> set xs \<Longrightarrow> f x = [g x]) \<Longrightarrow> concat (map f xs) = map g xs"
  by (induction xs) simp_all

text \<open>
  C9. The detailed rows never reach the report: whenever the hybrid path returns a
  merged frame, each of its rows is a row of the fast source with the three detailed
  fields estimated from that row. The merge is on the season label, and the labels of
  the fast source (\<open>2024/2025\<close>) never equal those of the detailed frame
  (\<open>2024-2025\<close>).
\<close>

theorem hybrid_rows_are_estimates:
  assumes "get_hybrid_team_stats e fe league team = Inr (Some (MergedFrame hs))"
  shows "\<exists>bs. snd (get_team_league_table_stats e league team) = Inr bs \<and>
              hs = map estimated_row bs"
proof -
  from assms obtain bs fs where
    bs: "snd (get_team_league_table_stats e league team) = Inr bs"
    and fs: "get_fbref_team_stats fe league team = Some fs"
    and hs: "fill_rows (merge_left bs fs) = Inr hs"
    by (auto simp: get_hybrid_team_stats_def ebind_def
             split: sum.splits option.splits if_splits)
  have "merge_row fs b = [(b, None, None, None)]" if b: "b \<in> set bs" for b
  proof (rule merge_row_unmatched, rule ballI)
    fix sd assume sd: "sd \<in> set fs"
    from basic_seasons [OF bs b] have "Season b \<notin> set fbref_seasons"
      by (rule labels_differ)
    with fbref_labels [OF fs sd] show "sd_Season sd \<noteq> Some (Season b)" by auto
  qed
  then have "merge_left bs fs = map (\<lambda>b. (b, None, None, None)) bs"
    unfolding merge_left_def by (intro concat_singletons) simp
  with hs have "hs = map estimated_row bs"
    by (simp add: fill_rows_unmatched)
  with bs show ?thesis by blast
qed

theorem hybrid_rows_are_estimates_witness:
  "get_hybrid_team_stats (table_env (one_season uniteds)) fbref_newcastle ''england'' ''united''
     = Inr (Some (MergedFrame [united_hybrid])) \<and>
   snd (get_team_league_table_stats (table_env (one_season uniteds)) ''england'' ''united'')
     = Inr [united_stat] \<and>
   [united_hybrid] = map estimated_row [united_stat]"
proof -
  have a: "get_hybrid_team_stats (table_env (one_season uniteds)) fbref_newcastle ''england''
             ''united'' = Inr (Some (MergedFrame [united_hybrid]))"
    by code_simp
  have b: "snd (get_team_league_table_stats (table_env (one_season uniteds)) ''england''
             ''united'') = Inr [united_stat]"
    by code_simp
  from hybrid_rows_are_estimates [OF a] b a show ?thesis by auto
qed









end
